theory Spec2Isabelle
  imports
    Complex_Main
    "HOL-Library.Multiset"
    "HOL-Library.Char_ord"
    "HOL-Library.List_Lexorder"
    "HOL-Library.Option_ord"
begin

section \<open>The SQL engine as far as the statements of the repository use it\<close>

text \<open>
  The repository is Python that hands fixed SQL text to SQLite. A column that may hold
  NULL is an \<open>option\<close>; TEXT is a \<open>string\<close> ordered bytewise (the BINARY
  collation, which is the lexicographic order of \<open>char list\<close>), and NULL sorts before
  every value (the order of \<open>option\<close>). A comparison with NULL is NULL, and a NULL
  condition selects nothing in WHERE, ON and CASE WHEN: \<open>sql_eq\<close>, \<open>sql_lt\<close> and
  \<open>sql_le\<close> say when the comparison is true.
\<close>

definition sql_eq :: "'a option \<Rightarrow> 'a option \<Rightarrow> bool" where
  "sql_eq a b = (case a of None \<Rightarrow> False | Some x \<Rightarrow> (case b of None \<Rightarrow> False | Some y \<Rightarrow> x = y))"

definition sql_lt :: "('a::linorder) option \<Rightarrow> 'a option \<Rightarrow> bool" where
  "sql_lt a b = (case a of None \<Rightarrow> False | Some x \<Rightarrow> (case b of None \<Rightarrow> False | Some y \<Rightarrow> x < y))"

definition sql_le :: "('a::linorder) option \<Rightarrow> 'a option \<Rightarrow> bool" where
  "sql_le a b = (case a of None \<Rightarrow> False | Some x \<Rightarrow> (case b of None \<Rightarrow> False | Some y \<Rightarrow> x \<le> y))"

definition sql_sub :: "rat option \<Rightarrow> rat option \<Rightarrow> rat option" where
  "sql_sub a b = (case a of None \<Rightarrow> None | Some x \<Rightarrow> (case b of None \<Rightarrow> None | Some y \<Rightarrow> Some (x - y)))"

subsection \<open>Date and time functions\<close>

text \<open>
  A calendar date is year, month, day; \<open>ymd_less\<close> is the order of the calendar.
  The clock is SQLite at the moment of a call: the current moment in UTC as \<open>'now'\<close>
  reads it (the current date and the milliseconds since its midnight), and
  \<open>other_datetime\<close>, the Julian day the library gives to a text in one of the forms
  that are not written out below (a date followed by a time of day, a time of day, a
  Julian day number), NULL where it reads none. The library is not part of the
  repository, and what is proved holds for every \<open>other_datetime\<close>.
\<close>

type_synonym ymd = "nat \<times> nat \<times> nat"

fun ymd_less :: "ymd \<Rightarrow> ymd \<Rightarrow> bool" where
  "ymd_less (y1, m1, d1) (y2, m2, d2) = (y1 < y2 \<or> y1 = y2 \<and> (m1 < m2 \<or> m1 = m2 \<and> d1 < d2))"

fun valid_ymd :: "ymd \<Rightarrow> bool" where
  "valid_ymd (y, m, d) = (y \<le> 9999 \<and> 1 \<le> m \<and> m \<le> 12 \<and> 1 \<le> d \<and> d \<le> 31)"

record clock =
  now_date :: ymd
  now_ms :: nat
  other_datetime :: "string \<Rightarrow> rat option"

definition valid_clock :: "clock \<Rightarrow> bool" where
  "valid_clock clk = (valid_ymd (now_date clk) \<and> now_ms clk < 86400000)"

definition digit :: "nat \<Rightarrow> char" where
  "digit n = char_of (48 + n mod 10)"

definition pad2 :: "nat \<Rightarrow> string" where
  "pad2 n = [digit (n div 10), digit n]"

definition pad4 :: "nat \<Rightarrow> string" where
  "pad4 n = pad2 (n div 100) @ pad2 (n mod 100)"

text \<open>\<open>date(...)\<close> prints \<open>%04d-%02d-%02d\<close>.\<close>

fun strftime_date :: "ymd \<Rightarrow> string" where
  "strftime_date (y, m, d) = pad4 y @ ''-'' @ pad2 m @ ''-'' @ pad2 d"

definition date_now :: "clock \<Rightarrow> string" where
  "date_now clk = strftime_date (now_date clk)"

definition digit_val :: "char \<Rightarrow> nat option" where
  "digit_val c = (let n = (of_char c :: nat) in if 48 \<le> n \<and> n \<le> 57 then Some (n - 48) else None)"

text \<open>
  SQLite's \<open>parseYyyyMmDd\<close> on a date-only text \<open>YYYY-MM-DD\<close>: four digits, two
  digits in 1..12, two digits in 1..31. This is the form Python's \<open>sqlite3\<close> writes
  for the \<open>date\<close> the forms of \<open>main.py\<close> bind to \<open>Expiry_Date\<close>.
\<close>

definition parseYyyyMmDd :: "string \<Rightarrow> ymd option" where
  "parseYyyyMmDd z =
     (if length z = 10 \<and> z ! 4 = CHR ''-'' \<and> z ! 7 = CHR ''-'' then
        (case those (map digit_val [z ! 0, z ! 1, z ! 2, z ! 3, z ! 5, z ! 6, z ! 8, z ! 9]) of
           Some ds \<Rightarrow>
             (let Y = 1000 * ds ! 0 + 100 * ds ! 1 + 10 * ds ! 2 + ds ! 3;
                  M = 10 * ds ! 4 + ds ! 5;
                  D = 10 * ds ! 6 + ds ! 7
              in if 1 \<le> M \<and> M \<le> 12 \<and> 1 \<le> D \<and> D \<le> 31 then Some (Y, M, D) else None)
         | None \<Rightarrow> None)
      else None)"

text \<open>
  SQLite's \<open>computeJD\<close>: the Julian day of the midnight that starts the date, in
  milliseconds (\<open>iJD\<close>); \<open>(X1 + X2 + D + B - 1524.5) * 86400000\<close> is written over
  the integers.
\<close>

fun computeJD :: "ymd \<Rightarrow> int" where
  "computeJD (y, m, d) =
     (let Y = (if m \<le> 2 then int y - 1 else int y);
          M = (if m \<le> 2 then int m + 12 else int m);
          A = (Y + 4800) div 100;
          B = 38 - A + A div 4;
          X1 = 36525 * (Y + 4716) div 100;
          X2 = 306001 * (M + 1) div 10000
      in (2 * (X1 + X2 + int d + B) - 3049) * 43200000)"

text \<open>
  \<open>julianday(X)\<close> is \<open>iJD / 86400000.0\<close>. The model computes in exact rationals
  where SQLite computes in doubles. A text that holds a slash is NULL: no date, time
  of day, time zone or number that SQLite reads has one, so \<open>3/17/2025\<close> is no date
  for it. A date-only text gives the Julian day of its midnight. Every other text is
  left to \<open>other_datetime\<close>.
\<close>

definition julianday :: "clock \<Rightarrow> string option \<Rightarrow> rat option" where
  "julianday clk x =
     (case x of
        None \<Rightarrow> None
      | Some z \<Rightarrow>
          if CHR ''/'' \<in> set z then None
          else (case parseYyyyMmDd z of
                  None \<Rightarrow> other_datetime clk z
                | Some d \<Rightarrow> Some (of_int (computeJD d) / 86400000)))"

definition julianday_now :: "clock \<Rightarrow> rat" where
  "julianday_now clk = of_int (computeJD (now_date clk) + int (now_ms clk)) / 86400000"

section \<open>The data model: the four tables of \<open>create_tables\<close>\<close>

text \<open>
  One record per table, one field per declared column, named with the alias the
  queries give the table (\<open>p\<close>, \<open>r\<close>, \<open>fl\<close>, \<open>c\<close>). An \<open>INTEGER PRIMARY KEY\<close> and a
  \<open>NOT NULL\<close> column hold a value; every other column may hold NULL.
\<close>

record provider =
  p_Provider_ID :: int
  p_Name :: string
  p_Type :: string
  p_Address :: "string option"
  p_City :: string
  p_Contact :: "string option"

record receiver =
  r_Receiver_ID :: int
  r_Name :: string
  r_Type :: string
  r_City :: string
  r_Contact :: "string option"

record food_listing =
  fl_Food_ID :: int
  fl_Food_Name :: string
  fl_Quantity :: int
  fl_Expiry_Date :: "string option"
  fl_Provider_ID :: "int option"
  fl_Provider_Type :: "string option"
  fl_Location :: "string option"
  fl_Food_Type :: "string option"
  fl_Meal_Type :: "string option"

record claim =
  c_Claim_ID :: int
  c_Food_ID :: "int option"
  c_Receiver_ID :: "int option"
  c_Status :: "string option"
  c_Timestamp :: "string option"

record database =
  providers :: "provider list"
  receivers :: "receiver list"
  food_listings :: "food_listing list"
  claims :: "claim list"

section \<open>Relational operators\<close>

text \<open>
  \<open>FROM a JOIN b ON on\<close> keeps every pair on which \<open>on\<close> is true. \<open>LEFT JOIN\<close>
  keeps a left row without a partner once, its right columns NULL (\<open>None\<close>).
  \<open>GROUP BY\<close> makes one group per distinct key, NULL a key like any other.
  \<open>ORDER BY\<close> sorts by the key; SQLite leaves the order of rows with equal keys
  open, and nothing below depends on it.
\<close>

definition inner_join :: "'a list \<Rightarrow> 'b list \<Rightarrow> ('a \<Rightarrow> 'b \<Rightarrow> bool) \<Rightarrow> ('a \<times> 'b) list" where
  "inner_join xs ys on = concat (map (\<lambda>x. map (Pair x) (filter (on x) ys)) xs)"

definition left_join :: "'a list \<Rightarrow> 'b list \<Rightarrow> ('a \<Rightarrow> 'b \<Rightarrow> bool) \<Rightarrow> ('a \<times> 'b option) list" where
  "left_join xs ys on =
     concat (map (\<lambda>x. if filter (on x) ys = [] then [(x, None)]
                       else map (\<lambda>y. (x, Some y)) (filter (on x) ys)) xs)"

definition group_by :: "('r \<Rightarrow> 'k) \<Rightarrow> 'r list \<Rightarrow> ('k \<times> 'r list) list" where
  "group_by key rows = map (\<lambda>k. (k, filter (\<lambda>r. key r = k) rows)) (remdups (map key rows))"

definition order_by_asc :: "('r \<Rightarrow> 'k::linorder) \<Rightarrow> 'r list \<Rightarrow> 'r list" where
  "order_by_asc key rows = sort_key key rows"

definition order_by_desc :: "('r \<Rightarrow> 'k::linorder) \<Rightarrow> 'r list \<Rightarrow> 'r list" where
  "order_by_desc key rows = rev (sort_key key rows)"

text \<open>
  Aggregates skip NULL: \<open>COUNT(x)\<close> counts the values that are not NULL, \<open>SUM(x)\<close>
  adds them and is NULL when there is none. Division by zero and by NULL is NULL.
  \<open>ROUND(x, 2)\<close> rounds to two decimals, a half away from zero; the model rounds the
  exact quotient.
\<close>

definition non_null :: "'a option list \<Rightarrow> 'a list" where
  "non_null vs = concat (map (\<lambda>v. case v of None \<Rightarrow> [] | Some x \<Rightarrow> [x]) vs)"

definition sql_count :: "'a option list \<Rightarrow> int" where
  "sql_count vs = int (length (non_null vs))"

definition sql_sum :: "int option list \<Rightarrow> int option" where
  "sql_sum vs = (if non_null vs = [] then None else Some (sum_list (non_null vs)))"

definition nullif :: "int option \<Rightarrow> int \<Rightarrow> int option" where
  "nullif a b = (if a = Some b then None else a)"

definition sql_percent :: "int option \<Rightarrow> int option \<Rightarrow> rat option" where
  "sql_percent a b =
     (case a of
        None \<Rightarrow> None
      | Some x \<Rightarrow> (case b of
                    None \<Rightarrow> None
                  | Some y \<Rightarrow> if y = 0 then None else Some (of_int x * 100 / of_int y)))"

definition round2 :: "rat \<Rightarrow> rat" where
  "round2 x = (if 0 \<le> x then of_int \<lfloor>x * 100 + 1 / 2\<rfloor> / 100
               else - (of_int \<lfloor>- x * 100 + 1 / 2\<rfloor> / 100))"

definition sql_round2 :: "rat option \<Rightarrow> rat option" where
  "sql_round2 v = map_option round2 v"

section \<open>SQLQueries: the reports\<close>

text \<open>
  Each report is a fixed SELECT that \<open>execute_query\<close> runs without parameters. The
  definitions below are the SELECTs on a database where they run.
\<close>

subsection \<open>Report 9: \<open>query_9_successful_providers\<close>\<close>


definition is_status :: "string \<Rightarrow> claim option \<Rightarrow> bool" where
  "is_status s c = sql_eq (Option.bind c c_Status) (Some s)"




subsection \<open>Report 10: \<open>query_10_claim_status_distribution\<close>\<close>

record row_10 =
  q10_Status :: "string option"
  q10_Count :: int
  q10_Percentage :: "rat option"

definition select_10 :: "database \<Rightarrow> string option \<times> claim list \<Rightarrow> row_10" where
  "select_10 db kg =
     (case kg of (status, g) \<Rightarrow>
        \<lparr>q10_Status = status,
         q10_Count = int (length g),
         q10_Percentage =
           sql_round2 (sql_percent (Some (int (length g))) (Some (int (length (claims db)))))\<rparr>)"

definition query_10_claim_status_distribution :: "database \<Rightarrow> row_10 list" where
  "query_10_claim_status_distribution db =
     order_by_desc q10_Count (map (select_10 db) (group_by c_Status (claims db)))"

subsection \<open>Report 13: \<open>query_13_provider_donations\<close>\<close>

record row_13 =
  q13_Name :: string
  q13_Type :: string
  q13_City :: string
  q13_Items_Listed :: int
  q13_Total_Quantity_Listed :: "int option"
  q13_Quantity_Donated :: "int option"
  q13_Donation_Rate_Percent :: "rat option"

definition from_13 :: "database \<Rightarrow> ((provider \<times> food_listing option) \<times> claim option) list" where
  "from_13 db =
     left_join
       (left_join (providers db) (food_listings db)
          (\<lambda>p fl. sql_eq (Some (p_Provider_ID p)) (fl_Provider_ID fl)))
       (claims db)
       (\<lambda>(p, fl) c. sql_eq (map_option fl_Food_ID fl) (c_Food_ID c))"

definition donated :: "(provider \<times> food_listing option) \<times> claim option \<Rightarrow> int option" where
  "donated r = (case r of ((p, fl), c) \<Rightarrow>
     if is_status ''Completed'' c then map_option fl_Quantity fl else Some 0)"

definition select_13 ::
  "(int \<times> string \<times> string \<times> string) \<times> ((provider \<times> food_listing option) \<times> claim option) list \<Rightarrow> row_13" where
  "select_13 kg =
     (case kg of ((pid, name, type, city), g) \<Rightarrow>
        \<lparr>q13_Name = name, q13_Type = type, q13_City = city,
         q13_Items_Listed = sql_count (map (\<lambda>((p, fl), c). map_option fl_Food_ID fl) g),
         q13_Total_Quantity_Listed = sql_sum (map (\<lambda>((p, fl), c). map_option fl_Quantity fl) g),
         q13_Quantity_Donated = sql_sum (map donated g),
         q13_Donation_Rate_Percent =
           sql_round2 (sql_percent (sql_sum (map donated g))
             (nullif (sql_sum (map (\<lambda>((p, fl), c). map_option fl_Quantity fl) g)) 0))\<rparr>)"

definition query_13_provider_donations :: "database \<Rightarrow> row_13 list" where
  "query_13_provider_donations db =
     order_by_desc q13_Quantity_Donated
       (map select_13
          (group_by (\<lambda>((p, fl), c). (p_Provider_ID p, p_Name p, p_Type p, p_City p)) (from_13 db)))"

subsection \<open>Report 14: \<open>query_14_expiring_food\<close>\<close>

record row_14 =
  q14_Food_Name :: string
  q14_Quantity :: int
  q14_Expiry_Date :: "string option"
  q14_Location :: "string option"
  q14_Food_Type :: "string option"
  q14_Meal_Type :: "string option"
  q14_Days_Until_Expiry :: "rat option"
  q14_Status :: string

definition Days_Until_Expiry :: "clock \<Rightarrow> food_listing \<Rightarrow> rat option" where
  "Days_Until_Expiry clk fl = sql_sub (julianday clk (fl_Expiry_Date fl)) (Some (julianday_now clk))"

definition Status_14 :: "rat option \<Rightarrow> string" where
  "Status_14 d =
     (if sql_lt d (Some 0) then ''Expired''
      else if sql_le d (Some 1) then ''Critical''
      else if sql_le d (Some 3) then ''Warning''
      else ''Safe'')"

definition select_14 :: "clock \<Rightarrow> food_listing \<Rightarrow> row_14" where
  "select_14 clk fl =
     \<lparr>q14_Food_Name = fl_Food_Name fl, q14_Quantity = fl_Quantity fl,
      q14_Expiry_Date = fl_Expiry_Date fl, q14_Location = fl_Location fl,
      q14_Food_Type = fl_Food_Type fl, q14_Meal_Type = fl_Meal_Type fl,
      q14_Days_Until_Expiry = Days_Until_Expiry clk fl,
      q14_Status = Status_14 (Days_Until_Expiry clk fl)\<rparr>"

definition query_14_expiring_food :: "clock \<Rightarrow> database \<Rightarrow> row_14 list" where
  "query_14_expiring_food clk db =
     map (select_14 clk)
       (order_by_asc (Days_Until_Expiry clk)
          (filter (\<lambda>fl. sql_le (Days_Until_Expiry clk fl) (Some 5)) (food_listings db)))"

subsection \<open>Report 15: \<open>query_15_unclaimed_food\<close>\<close>

record row_15 =
  q15_Food_Name :: string
  q15_Quantity :: int
  q15_Expiry_Date :: "string option"
  q15_Location :: "string option"
  q15_Food_Type :: "string option"
  q15_Meal_Type :: "string option"
  q15_Provider_Name :: string
  q15_Provider_Contact :: "string option"
  q15_Days_Until_Expiry :: "rat option"

definition from_15 :: "database \<Rightarrow> ((food_listing \<times> provider) \<times> claim option) list" where
  "from_15 db =
     order_by_asc (\<lambda>((fl, p), c). fl_Expiry_Date fl)
       (filter (\<lambda>(flp, c). Option.bind c c_Food_ID = None)
          (left_join
             (inner_join (food_listings db) (providers db)
                (\<lambda>fl p. sql_eq (fl_Provider_ID fl) (Some (p_Provider_ID p))))
             (claims db)
             (\<lambda>(fl, p) c. sql_eq (Some (fl_Food_ID fl)) (c_Food_ID c))))"

definition select_15 :: "clock \<Rightarrow> (food_listing \<times> provider) \<times> claim option \<Rightarrow> row_15" where
  "select_15 clk r =
     (case r of ((fl, p), c) \<Rightarrow>
        \<lparr>q15_Food_Name = fl_Food_Name fl, q15_Quantity = fl_Quantity fl,
         q15_Expiry_Date = fl_Expiry_Date fl, q15_Location = fl_Location fl,
         q15_Food_Type = fl_Food_Type fl, q15_Meal_Type = fl_Meal_Type fl,
         q15_Provider_Name = p_Name p, q15_Provider_Contact = p_Contact p,
         q15_Days_Until_Expiry = Days_Until_Expiry clk fl\<rparr>)"

definition query_15_unclaimed_food :: "clock \<Rightarrow> database \<Rightarrow> row_15 list" where
  "query_15_unclaimed_food clk db = map (select_15 clk) (from_15 db)"

section \<open>DatabaseUtils\<close>

text \<open>
  \<open>clean_expired_food\<close>. The storage is \<open>None\<close> when a statement on it raises (the
  file cannot be opened, the table is missing): the \<open>except\<close> branch returns 0 and
  nothing is written. Otherwise the method counts the rows with
  \<open>Expiry_Date < date('now')\<close>, deletes them when the count is positive, and
  returns the count. Both sides of \<open><\<close> are TEXT.
\<close>

definition expired :: "clock \<Rightarrow> food_listing \<Rightarrow> bool" where
  "expired clk fl = sql_lt (fl_Expiry_Date fl) (Some (date_now clk))"

definition clean_expired_food :: "clock \<Rightarrow> database option \<Rightarrow> int \<times> database option" where
  "clean_expired_food clk st =
     (case st of
        None \<Rightarrow> (0, None)
      | Some db \<Rightarrow>
          (let expired_count = int (length (filter (expired clk) (food_listings db))) in
           if expired_count > 0
           then (expired_count,
                 Some (db\<lparr>food_listings := filter (\<lambda>fl. \<not> expired clk fl) (food_listings db)\<rparr>))
           else (expired_count, Some db)))"


text \<open>
  The words of the specification for the purge: a listing is before today when its
  \<open>Expiry_Date\<close> reads as a calendar date that is strictly before the current date.
  \<open>iso_dates\<close> says that every \<open>Expiry_Date\<close> of the table is NULL or a date as
  SQLite prints one.
\<close>

definition before_today :: "clock \<Rightarrow> food_listing \<Rightarrow> bool" where
  "before_today clk fl =
     (case fl_Expiry_Date fl of
        None \<Rightarrow> False
      | Some t \<Rightarrow> (case parseYyyyMmDd t of None \<Rightarrow> False | Some d \<Rightarrow> ymd_less d (now_date clk)))"

definition iso_date_text :: "string option \<Rightarrow> bool" where
  "iso_date_text v = (case v of None \<Rightarrow> True | Some t \<Rightarrow> (\<exists>d. valid_ymd d \<and> t = strftime_date d))"

definition iso_dates :: "database \<Rightarrow> bool" where
  "iso_dates db = list_all (\<lambda>fl. iso_date_text (fl_Expiry_Date fl)) (food_listings db)"

section \<open>The words of the specification\<close>

text \<open>
  The claim rows associated with a listing are those whose \<open>Food_ID\<close> is the
  listing's; a listing without one is unclaimed. The providers of a listing are the
  provider rows whose \<open>Provider_ID\<close> is the listing's.
\<close>

definition claims_on :: "database \<Rightarrow> food_listing \<Rightarrow> claim list" where
  "claims_on db fl = filter (\<lambda>c. c_Food_ID c = Some (fl_Food_ID fl)) (claims db)"

definition unclaimed :: "database \<Rightarrow> food_listing \<Rightarrow> bool" where
  "unclaimed db fl = (claims_on db fl = [])"

definition providers_of :: "database \<Rightarrow> food_listing \<Rightarrow> provider list" where
  "providers_of db fl = filter (\<lambda>p. fl_Provider_ID fl = Some (p_Provider_ID p)) (providers db)"

definition spec_15 :: "clock \<Rightarrow> database \<Rightarrow> row_15 list" where
  "spec_15 clk db =
     concat (map (\<lambda>fl. map (\<lambda>p. select_15 clk ((fl, p), None)) (providers_of db fl))
               (filter (unclaimed db) (food_listings db)))"

section \<open>DatabaseSetup: the schema and the loader\<close>

text \<open>
  \<open>create_tables\<close> and \<open>load_csv_data\<close> work on tables that may or may not exist,
  with whatever columns the last statement gave them, so the storage here is a list
  of named tables in the order of their creation. A table has its column
  declarations (name and the rest of the declaration), its table constraints, and
  its rows. A value is NULL, an integer, a real or a text.
\<close>

datatype sqlval = SqlNull | SqlInteger int | SqlReal rat | SqlText string

record table =
  t_columns :: "(string \<times> string) list"
  t_constraints :: "string list"
  t_rows :: "sqlval list list"

type_synonym storage = "(string \<times> table) list"

text \<open>
  What \<open>create_connection\<close> returns: \<open>None\<close> after printing the error of
  \<open>sqlite3.connect\<close>; or a connection, which is to a database on which every
  statement raises \<open>sqlite3.Error\<close> with a message (a file that is locked or is
  no database), or to a database in a state. An exception is the text of its
  message.
\<close>

datatype connection = No_connection | Failing string | Db storage

definition has_table :: "storage \<Rightarrow> string \<Rightarrow> bool" where
  "has_table st name = (name \<in> set (map fst st))"

definition create_table_if_not_exists :: "string \<Rightarrow> table \<Rightarrow> storage \<Rightarrow> storage" where
  "create_table_if_not_exists name t st = (if has_table st name then st else st @ [(name, t)])"

definition providers_table :: table where
  "providers_table =
     \<lparr>t_columns = [(''Provider_ID'', ''INTEGER PRIMARY KEY''), (''Name'', ''TEXT NOT NULL''),
                    (''Type'', ''TEXT NOT NULL''), (''Address'', ''TEXT''),
                    (''City'', ''TEXT NOT NULL''), (''Contact'', ''TEXT'')],
      t_constraints = [], t_rows = []\<rparr>"

definition receivers_table :: table where
  "receivers_table =
     \<lparr>t_columns = [(''Receiver_ID'', ''INTEGER PRIMARY KEY''), (''Name'', ''TEXT NOT NULL''),
                    (''Type'', ''TEXT NOT NULL''), (''City'', ''TEXT NOT NULL''),
                    (''Contact'', ''TEXT'')],
      t_constraints = [], t_rows = []\<rparr>"

definition food_listings_table :: table where
  "food_listings_table =
     \<lparr>t_columns = [(''Food_ID'', ''INTEGER PRIMARY KEY''), (''Food_Name'', ''TEXT NOT NULL''),
                    (''Quantity'', ''INTEGER NOT NULL''), (''Expiry_Date'', ''DATE''),
                    (''Provider_ID'', ''INTEGER''), (''Provider_Type'', ''TEXT''),
                    (''Location'', ''TEXT''), (''Food_Type'', ''TEXT''), (''Meal_Type'', ''TEXT'')],
      t_constraints = [''FOREIGN KEY (Provider_ID) REFERENCES providers (Provider_ID)''],
      t_rows = []\<rparr>"

definition claims_table :: table where
  "claims_table =
     \<lparr>t_columns = [(''Claim_ID'', ''INTEGER PRIMARY KEY''), (''Food_ID'', ''INTEGER''),
                    (''Receiver_ID'', ''INTEGER''), (''Status'', ''TEXT''),
                    (''Timestamp'', ''DATETIME'')],
      t_constraints = [''FOREIGN KEY (Food_ID) REFERENCES food_listings (Food_ID)'',
                       ''FOREIGN KEY (Receiver_ID) REFERENCES receivers (Receiver_ID)''],
      t_rows = []\<rparr>"

text \<open>The four \<open>CREATE TABLE IF NOT EXISTS\<close> statements, in the order of the source.\<close>

definition create_statements :: "storage \<Rightarrow> storage" where
  "create_statements st =
     create_table_if_not_exists ''claims'' claims_table
       (create_table_if_not_exists ''food_listings'' food_listings_table
          (create_table_if_not_exists ''receivers'' receivers_table
             (create_table_if_not_exists ''providers'' providers_table st)))"

text \<open>
  \<open>create_tables\<close> of \<open>src/database_setup.py\<close> raises \<open>Exception\<close> (\<open>Inl\<close>) without
  a connection and on \<open>sqlite3.Error\<close>; that of
  \<open>src/food_waste_project/database_setup.py\<close> returns and prints instead. The result
  is what is raised or returned, the database behind the connection, and the lines
  printed. The check mark that starts the lines of the first file is left out.
\<close>

definition create_tables :: "connection \<Rightarrow> (string + unit) \<times> connection \<times> string list" where
  "create_tables conn =
     (case conn of
        No_connection \<Rightarrow> (Inl ''Could not connect to database'', No_connection, [])
      | Failing e \<Rightarrow> (Inl (''Error creating tables: '' @ e), Failing e, [])
      | Db st \<Rightarrow> (Inr (), Db (create_statements st), [''Tables created successfully!'']))"

definition create_tables_package :: "connection \<Rightarrow> (string + unit) \<times> connection \<times> string list" where
  "create_tables_package conn =
     (case conn of
        No_connection \<Rightarrow> (Inr (), No_connection, [])
      | Failing e \<Rightarrow> (Inr (), Failing e, [''Error creating tables: '' @ e])
      | Db st \<Rightarrow> (Inr (), Db (create_statements st), [''Tables created successfully!'']))"











section \<open>SQLQueries: \<open>execute_query\<close>\<close>







section \<open>The words of the specification for Report 9\<close>









section \<open>Example rows\<close>

text \<open>A clock at 2026-11-04 01:00 UTC, and a few rows for the examples below.\<close>

definition clk0 :: clock where
  "clk0 = \<lparr>now_date = (2026, 11, 4), now_ms = 3600000, other_datetime = (\<lambda>z. None)\<rparr>"

definition pA :: provider where
  "pA = \<lparr>p_Provider_ID = 1, p_Name = ''A'', p_Type = ''Restaurant'', p_Address = None,
         p_City = ''City X'', p_Contact = Some ''555-0100''\<rparr>"

definition rice :: food_listing where
  "rice = \<lparr>fl_Food_ID = 1, fl_Food_Name = ''Rice'', fl_Quantity = 10,
           fl_Expiry_Date = Some ''2099-01-01'', fl_Provider_ID = Some 1,
           fl_Provider_Type = Some ''Restaurant'', fl_Location = Some ''City X'',
           fl_Food_Type = Some ''Vegetarian'', fl_Meal_Type = Some ''Lunch''\<rparr>"

definition soup :: food_listing where
  "soup = \<lparr>fl_Food_ID = 2, fl_Food_Name = ''Soup'', fl_Quantity = 5,
           fl_Expiry_Date = Some ''2026-11-03'', fl_Provider_ID = Some 7,
           fl_Provider_Type = Some ''Restaurant'', fl_Location = Some ''City X'',
           fl_Food_Type = Some ''Vegan'', fl_Meal_Type = Some ''Dinner''\<rparr>"

definition claim1 :: claim where
  "claim1 = \<lparr>c_Claim_ID = 1, c_Food_ID = Some 1, c_Receiver_ID = Some 1,
             c_Status = Some ''Completed'', c_Timestamp = Some ''2026-11-01 10:00:00''\<rparr>"

definition claim2 :: claim where
  "claim2 = \<lparr>c_Claim_ID = 2, c_Food_ID = Some 1, c_Receiver_ID = Some 1,
             c_Status = Some ''Pending'', c_Timestamp = Some ''2026-11-02 10:00:00''\<rparr>"

definition db_purge :: database where
  "db_purge = \<lparr>providers = [], receivers = [], food_listings = [rice, soup], claims = []\<rparr>"

definition db_unclaimed :: database where
  "db_unclaimed = \<lparr>providers = [pA], receivers = [], food_listings = [rice], claims = []\<rparr>"

definition db_dangling :: database where
  "db_dangling = \<lparr>providers = [pA], receivers = [], food_listings = [rice, soup], claims = []\<rparr>"

text \<open>
  Two listings as \<open>load_csv_data\<close> stores them from a file that writes its dates
  month/day/year, and the same two with the dates as the forms of \<open>main.py\<close>
  write them.
\<close>

definition bread :: food_listing where
  "bread = \<lparr>fl_Food_ID = 3, fl_Food_Name = ''Bread'', fl_Quantity = 43,
            fl_Expiry_Date = Some ''1/5/2030'', fl_Provider_ID = Some 1,
            fl_Provider_Type = Some ''Grocery Store'', fl_Location = Some ''City X'',
            fl_Food_Type = Some ''Non-Vegetarian'', fl_Meal_Type = Some ''Breakfast''\<rparr>"

definition milk :: food_listing where
  "milk = \<lparr>fl_Food_ID = 4, fl_Food_Name = ''Milk'', fl_Quantity = 7,
           fl_Expiry_Date = Some ''3/17/2025'', fl_Provider_ID = Some 1,
           fl_Provider_Type = Some ''Grocery Store'', fl_Location = Some ''City X'',
           fl_Food_Type = Some ''Vegetarian'', fl_Meal_Type = Some ''Dinner''\<rparr>"

definition pie :: food_listing where
  "pie = \<lparr>fl_Food_ID = 5, fl_Food_Name = ''Pie'', fl_Quantity = 2,
          fl_Expiry_Date = Some ''11/5/2026'', fl_Provider_ID = Some 1,
          fl_Provider_Type = Some ''Restaurant'', fl_Location = Some ''City X'',
          fl_Food_Type = Some ''Vegan'', fl_Meal_Type = Some ''Snacks''\<rparr>"

definition stew :: food_listing where
  "stew = \<lparr>fl_Food_ID = 6, fl_Food_Name = ''Stew'', fl_Quantity = 9,
           fl_Expiry_Date = Some ''11/3/2026'', fl_Provider_ID = Some 1,
           fl_Provider_Type = Some ''Restaurant'', fl_Location = Some ''City X'',
           fl_Food_Type = Some ''Vegan'', fl_Meal_Type = Some ''Lunch''\<rparr>"

definition db_csv :: database where
  "db_csv = \<lparr>providers = [pA], receivers = [], food_listings = [bread, milk], claims = []\<rparr>"

definition db_csv_soon :: database where
  "db_csv_soon = \<lparr>providers = [pA], receivers = [], food_listings = [pie, stew], claims = []\<rparr>"

definition db_iso_soon :: database where
  "db_iso_soon = \<lparr>providers = [pA], receivers = [],
     food_listings = [pie\<lparr>fl_Expiry_Date := Some ''2026-11-05''\<rparr>,
                      stew\<lparr>fl_Expiry_Date := Some ''2026-11-03''\<rparr>],
     claims = []\<rparr>"

definition claim3 :: claim where
  "claim3 = \<lparr>c_Claim_ID = 3, c_Food_ID = Some 2, c_Receiver_ID = Some 2,
             c_Status = Some ''Pending'', c_Timestamp = Some ''2026-11-03 10:00:00''\<rparr>"

definition db_thirds :: database where
  "db_thirds = \<lparr>providers = [pA], receivers = [], food_listings = [rice, soup],
                claims = [claim1, claim2, claim3]\<rparr>"

definition db_two_claims :: database where
  "db_two_claims = \<lparr>providers = [pA], receivers = [], food_listings = [rice],
                    claims = [claim1, claim2]\<rparr>"

text \<open>A database with the four tables and a row in two of them, and a file to load.\<close>

definition st_loaded :: storage where
  "st_loaded =
     [(''providers'', providers_table\<lparr>t_rows :=
          [[SqlInteger 1, SqlText ''A'', SqlText ''Restaurant'', SqlNull, SqlText ''City X'',
            SqlText ''555-0100'']]\<rparr>),
      (''receivers'', receivers_table),
      (''food_listings'', food_listings_table\<lparr>t_rows :=
          [[SqlInteger 1, SqlText ''Rice'', SqlInteger 10, SqlText ''2099-01-01'', SqlInteger 1,
            SqlText ''Restaurant'', SqlText ''City X'', SqlText ''Vegetarian'', SqlText ''Lunch'']]\<rparr>),
      (''claims'', claims_table)]"








section \<open>Dates as text\<close>

lemma of_char_digit: "(of_char (digit n) :: nat) = 48 + n mod 10"
  by (simp add: digit_def)

lemma digit_val_digit: "digit_val (digit n) = Some (n mod 10)"
  by (simp add: digit_val_def of_char_digit Let_def)

lemma digit_less_iff: "digit a < digit b \<longleftrightarrow> a mod 10 < b mod 10"
  by (simp add: less_char_def of_char_digit)

lemma digit_eq_iff: "digit a = digit b \<longleftrightarrow> a mod 10 = b mod 10"
proof
  assume "digit a = digit b"
  then have "(of_char (digit a) :: nat) = of_char (digit b)" by simp
  then show "a mod 10 = b mod 10" by (simp add: of_char_digit)
next
  assume "a mod 10 = b mod 10"
  then show "digit a = digit b" by (simp add: digit_def)
qed

lemma digit_ne_dash: "digit n \<noteq> CHR ''-''"
proof
  assume "digit n = CHR ''-''"
  then have "(of_char (digit n) :: nat) = of_char (CHR ''-'')" by simp
  then show False by (simp add: of_char_digit)
qed

lemma append_less_iff:
  fixes xs ys :: "('a::linorder) list"
  shows "length xs = length ys \<Longrightarrow> xs @ us < ys @ vs \<longleftrightarrow> xs < ys \<or> xs = ys \<and> us < vs"
  by (induction xs ys rule: list_induct2) auto

lemma two_digit_order:
  fixes qa ra qb rb :: nat
  assumes "ra < 10" "rb < 10"
  shows "(qa < qb \<or> qa = qb \<and> ra < rb) \<longleftrightarrow> 10 * qa + ra < 10 * qb + rb"
  using assms by linarith

lemma pad2_less_iff:
  assumes "a < 100" "b < 100"
  shows "pad2 a < pad2 b \<longleftrightarrow> a < b"
proof -
  have qa: "a div 10 < 10" and qb: "b div 10 < 10" using assms by simp_all
  have "pad2 a < pad2 b \<longleftrightarrow> a div 10 < b div 10 \<or> a div 10 = b div 10 \<and> a mod 10 < b mod 10"
    using qa qb by (simp add: pad2_def digit_less_iff digit_eq_iff)
  also have "\<dots> \<longleftrightarrow> 10 * (a div 10) + a mod 10 < 10 * (b div 10) + b mod 10"
    by (rule two_digit_order) simp_all
  also have "\<dots> \<longleftrightarrow> a < b" by simp
  finally show ?thesis .
qed


lemma pad2_eq_iff:
  assumes "a < 100" "b < 100"
  shows "pad2 a = pad2 b \<longleftrightarrow> a = b"
proof
  assume "pad2 a = pad2 b"
  then have "\<not> pad2 a < pad2 b" "\<not> pad2 b < pad2 a" by simp_all
  then show "a = b" using assms by (simp add: pad2_less_iff)
qed simp

lemma length_pad2: "length (pad2 n) = 2"
  by (simp add: pad2_def)

lemma length_pad4: "length (pad4 n) = 4"
  by (simp add: pad4_def length_pad2)

lemma hundreds_order:
  fixes qa ra qb rb :: nat
  assumes "ra < 100" "rb < 100"
  shows "(qa < qb \<or> qa = qb \<and> ra < rb) \<longleftrightarrow> 100 * qa + ra < 100 * qb + rb"
  using assms by linarith

lemma pad4_less_iff:
  assumes "a < 10000" "b < 10000"
  shows "pad4 a < pad4 b \<longleftrightarrow> a < b"
proof -
  have qa: "a div 100 < 100" and qb: "b div 100 < 100" using assms by simp_all
  have "pad4 a < pad4 b \<longleftrightarrow>
      a div 100 < b div 100 \<or> a div 100 = b div 100 \<and> a mod 100 < b mod 100"
    using qa qb
    by (simp add: pad4_def append_less_iff length_pad2 pad2_less_iff pad2_eq_iff)
  also have "\<dots> \<longleftrightarrow> 100 * (a div 100) + a mod 100 < 100 * (b div 100) + b mod 100"
    by (rule hundreds_order) simp_all
  also have "\<dots> \<longleftrightarrow> a < b" by simp
  finally show ?thesis .
qed

lemma pad4_eq_iff:
  assumes "a < 10000" "b < 10000"
  shows "pad4 a = pad4 b \<longleftrightarrow> a = b"
proof
  assume "pad4 a = pad4 b"
  then have "\<not> pad4 a < pad4 b" "\<not> pad4 b < pad4 a" by simp_all
  then show "a = b" using assms by (simp add: pad4_less_iff)
qed simp

text \<open>On dates as SQLite prints them, the order of TEXT is the order of the calendar.\<close>

lemma strftime_date_less_iff:
  assumes "valid_ymd a" "valid_ymd b"
  shows "strftime_date a < strftime_date b \<longleftrightarrow> ymd_less a b"
proof -
  obtain y1 m1 d1 where a: "a = (y1, m1, d1)" by (cases a)
  obtain y2 m2 d2 where b: "b = (y2, m2, d2)" by (cases b)
  have bounds: "y1 < 10000" "y2 < 10000" "m1 < 100" "m2 < 100" "d1 < 100" "d2 < 100"
    using assms by (simp_all add: a b)
  have "strftime_date a < strftime_date b \<longleftrightarrow>
      pad4 y1 < pad4 y2 \<or> pad4 y1 = pad4 y2 \<and>
        (pad2 m1 < pad2 m2 \<or> pad2 m1 = pad2 m2 \<and> pad2 d1 < pad2 d2)"
    by (simp add: a b append_less_iff length_pad4 length_pad2)
  also have "\<dots> \<longleftrightarrow> ymd_less a b"
    using bounds by (simp add: a b pad4_less_iff pad4_eq_iff pad2_less_iff pad2_eq_iff)
  finally show ?thesis .
qed

lemma strftime_date_inj:
  assumes "valid_ymd a" "valid_ymd b" "strftime_date a = strftime_date b"
  shows "a = b"
proof -
  obtain y1 m1 d1 where a: "a = (y1, m1, d1)" by (cases a)
  obtain y2 m2 d2 where b: "b = (y2, m2, d2)" by (cases b)
  have bounds: "y1 < 10000" "y2 < 10000" "m1 < 100" "m2 < 100" "d1 < 100" "d2 < 100"
    using assms by (simp_all add: a b)
  have "pad4 y1 = pad4 y2 \<and> pad2 m1 = pad2 m2 \<and> pad2 d1 = pad2 d2"
    using assms(3) by (simp add: a b length_pad4 length_pad2)
  then show ?thesis using bounds by (simp add: a b pad4_eq_iff pad2_eq_iff)
qed


lemma two_digits_value: "n < 100 \<Longrightarrow> 10 * (n div 10 mod 10) + n mod 10 = (n::nat)"
  by simp

lemma strftime_date_explicit:
  "strftime_date (y, m, d) =
     [digit (y div 100 div 10), digit (y div 100), digit (y mod 100 div 10), digit (y mod 100),
      CHR ''-'', digit (m div 10), digit m, CHR ''-'', digit (d div 10), digit d]"
  by (simp add: pad4_def pad2_def)

lemma parse_digits:
  "parseYyyyMmDd [digit a, digit b, digit c, digit e, CHR ''-'', digit f, digit g, CHR ''-'', digit h, digit i] =
     (if 1 \<le> 10 * (f mod 10) + g mod 10 \<and> 10 * (f mod 10) + g mod 10 \<le> 12
         \<and> 1 \<le> 10 * (h mod 10) + i mod 10 \<and> 10 * (h mod 10) + i mod 10 \<le> 31
      then Some (1000 * (a mod 10) + 100 * (b mod 10) + 10 * (c mod 10) + e mod 10,
                 10 * (f mod 10) + g mod 10, 10 * (h mod 10) + i mod 10)
      else None)"
  by (simp add: parseYyyyMmDd_def digit_val_digit Let_def)

lemma parse_strftime_date:
  assumes "valid_ymd a"
  shows "parseYyyyMmDd (strftime_date a) = Some a"
proof -
  obtain y m d where a: "a = (y, m, d)" by (cases a)
  have y: "y < 10000" using assms by (simp add: a)
  have b: "y div 100 < 100" "y mod 100 < 100" "m < 100" "d < 100" "1 \<le> m" "m \<le> 12" "1 \<le> d" "d \<le> 31"
    using assms y by (simp_all add: a)
  have Y: "1000 * (y div 100 div 10 mod 10) + 100 * (y div 100 mod 10)
             + 10 * (y mod 100 div 10 mod 10) + y mod 100 mod 10 = y"
  proof -
    have "1000 * (y div 100 div 10 mod 10) + 100 * (y div 100 mod 10)
            + 10 * (y mod 100 div 10 mod 10) + y mod 100 mod 10
          = 100 * (10 * (y div 100 div 10 mod 10) + y div 100 mod 10)
            + (10 * (y mod 100 div 10 mod 10) + y mod 100 mod 10)"
      by simp
    also have "\<dots> = 100 * (y div 100) + y mod 100"
      using b(1,2) by (simp only: two_digits_value)
    also have "\<dots> = y" by simp
    finally show ?thesis .
  qed
  have M: "10 * (m div 10 mod 10) + m mod 10 = m" using b(3) by (rule two_digits_value)
  have D: "10 * (d div 10 mod 10) + d mod 10 = d" using b(4) by (rule two_digits_value)
  show ?thesis
    unfolding a strftime_date_explicit parse_digits Y M D
    using b(5-8) by simp
qed

lemma digit_ne_slash: "digit n \<noteq> CHR ''/''" "CHR ''/'' \<noteq> digit n"
proof -
  show "digit n \<noteq> CHR ''/''"
  proof
    assume "digit n = CHR ''/''"
    then have "(of_char (digit n) :: nat) = of_char (CHR ''/'')" by simp
    then show False by (simp add: of_char_digit)
  qed
  then show "CHR ''/'' \<noteq> digit n" by (rule not_sym)
qed

lemma no_slash_strftime_date: "CHR ''/'' \<notin> set (strftime_date a)"
  by (cases a) (simp add: pad4_def pad2_def digit_ne_slash)

lemma julianday_strftime_date:
  "valid_ymd a \<Longrightarrow> julianday clk (Some (strftime_date a)) = Some (of_int (computeJD a) / 86400000)"
  by (simp add: julianday_def parse_strftime_date no_slash_strftime_date del: strftime_date.simps)

section \<open>Properties of DatabaseUtils\<close>

lemma expired_iff_before_today:
  assumes "valid_clock clk" "iso_date_text (fl_Expiry_Date fl)"
  shows "expired clk fl \<longleftrightarrow> before_today clk fl"
proof (cases "fl_Expiry_Date fl")
  case None
  then show ?thesis by (simp add: expired_def before_today_def sql_lt_def)
next
  case (Some t)
  then obtain d where d: "valid_ymd d" "t = strftime_date d"
    using assms(2) by (auto simp: iso_date_text_def)
  have today: "valid_ymd (now_date clk)" using assms(1) by (simp add: valid_clock_def)
  show ?thesis
    using Some d today
    by (simp add: expired_def before_today_def sql_lt_def date_now_def
        strftime_date_less_iff parse_strftime_date)
qed

lemma filter_expired_eq:
  assumes "valid_clock clk" "iso_dates db"
  shows "filter (expired clk) (food_listings db) = filter (before_today clk) (food_listings db)"
    and "filter (\<lambda>fl. \<not> expired clk fl) (food_listings db)
         = filter (\<lambda>fl. \<not> before_today clk fl) (food_listings db)"
  using assms
  by (auto simp: iso_dates_def list_all_iff expired_iff_before_today intro!: filter_cong)

lemma clean_expired_food_twice:
  "fst (clean_expired_food clk (snd (clean_expired_food clk st))) = 0"
  by (cases st) (auto simp: clean_expired_food_def Let_def filter_empty_conv)

text \<open>
  On a table whose expiry dates are dates as SQLite prints them,
  \<open>clean_expired_food\<close> removes exactly the listings whose \<open>Expiry_Date\<close> is
  strictly before the current date, keeps every other listing, and returns the number
  removed; run again at once it returns 0, and it returns 0 when the storage fails.
\<close>

theorem clean_expired_food_exact:
  assumes "valid_clock clk" "iso_dates db"
  shows "\<exists>db'. clean_expired_food clk (Some db)
            = (int (length (filter (before_today clk) (food_listings db))), Some db')
         \<and> food_listings db' = filter (\<lambda>fl. \<not> before_today clk fl) (food_listings db)
         \<and> fst (clean_expired_food clk (Some db')) = 0
         \<and> fst (clean_expired_food clk None) = 0"
proof -
  define db' where
    "db' = (if filter (expired clk) (food_listings db) = [] then db
            else db\<lparr>food_listings := filter (\<lambda>fl. \<not> expired clk fl) (food_listings db)\<rparr>)"
  have r: "clean_expired_food clk (Some db)
             = (int (length (filter (expired clk) (food_listings db))), Some db')"
    by (simp add: clean_expired_food_def Let_def db'_def)
  have "food_listings db' = filter (\<lambda>fl. \<not> expired clk fl) (food_listings db)"
    by (simp add: db'_def filter_empty_conv)
  then have 2: "food_listings db' = filter (\<lambda>fl. \<not> before_today clk fl) (food_listings db)"
    using filter_expired_eq(2)[OF assms] by simp
  have 3: "fst (clean_expired_food clk (Some db')) = 0"
    using clean_expired_food_twice[of clk "Some db"] r by simp
  have 4: "fst (clean_expired_food clk None) = 0" by (simp add: clean_expired_food_def)
  show ?thesis
    using r 2 3 4 filter_expired_eq(1)[OF assms] by simp
qed


lemma iso_date_text_strftime: "valid_ymd d \<Longrightarrow> iso_date_text (Some (strftime_date d))"
  unfolding iso_date_text_def by (simp only: option.case) (rule exI[of _ d], simp)

lemma text_2099: "strftime_date (2099, 1, 1) = ''2099-01-01''"
  by code_simp

lemma text_yesterday: "strftime_date (2026, 11, 3) = ''2026-11-03''"
  by code_simp

lemma iso_text_2099: "iso_date_text (Some ''2099-01-01'')"
proof -
  have "valid_ymd (2099, 1, 1)" by simp
  from iso_date_text_strftime[OF this] show ?thesis by (simp only: text_2099)
qed

lemma iso_text_yesterday: "iso_date_text (Some ''2026-11-03'')"
proof -
  have "valid_ymd (2026, 11, 3)" by simp
  from iso_date_text_strftime[OF this] show ?thesis by (simp only: text_yesterday)
qed

theorem clean_expired_food_exact_witness:
  "valid_clock clk0 \<and> iso_dates db_purge
   \<and> (\<exists>db'. clean_expired_food clk0 (Some db_purge) = (1, Some db')
        \<and> food_listings db' = [rice]
        \<and> fst (clean_expired_food clk0 (Some db')) = 0)"
proof -
  have v: "valid_clock clk0" by (simp add: valid_clock_def clk0_def)
  have i: "iso_dates db_purge"
    by (simp add: iso_dates_def db_purge_def rice_def soup_def iso_text_2099 iso_text_yesterday)
  have b1: "\<not> before_today clk0 rice"
    by (simp add: before_today_def rice_def clk0_def parseYyyyMmDd_def digit_val_def)
  have b2: "before_today clk0 soup"
    by (simp add: before_today_def soup_def clk0_def parseYyyyMmDd_def digit_val_def)
  have "food_listings db_purge = [rice, soup]" by (simp add: db_purge_def)
  with clean_expired_food_exact[OF v i] b1 b2 v i show ?thesis by auto
qed

text \<open>
  C10. \<open>clean_expired_food\<close> writes \<open>food_listings\<close> only: on every database it
  succeeds and leaves the providers, the receivers and the claims as they were, so a
  claim whose \<open>Food_ID\<close> named a purged listing stays, dangling.
\<close>

theorem clean_expired_food_frame:
  "\<exists>n db'. clean_expired_food clk (Some db) = (n, Some db')
     \<and> providers db' = providers db
     \<and> receivers db' = receivers db
     \<and> claims db' = claims db"
  by (simp add: clean_expired_food_def Let_def)

section \<open>Properties of the reports\<close>

subsection \<open>Sorting\<close>

lemma mset_order_by_asc: "mset (order_by_asc key rows) = mset rows"
  by (simp add: order_by_asc_def)

lemma set_order_by_asc: "set (order_by_asc key rows) = set rows"
  by (simp add: order_by_asc_def)

lemma sorted_order_by_asc: "sorted (map key (order_by_asc key rows))"
  by (simp add: order_by_asc_def)

lemma mset_order_by_desc: "mset (order_by_desc key rows) = mset rows"
  by (simp add: order_by_desc_def)

lemma set_order_by_desc: "set (order_by_desc key rows) = set rows"
  by (simp add: order_by_desc_def)

lemma sorted_order_by_desc: "sorted (rev (map key (order_by_desc key rows)))"
  by (simp add: order_by_desc_def rev_map[symmetric])

subsection \<open>Report 14\<close>

lemma sql_le_Some: "sql_le v (Some b) \<longleftrightarrow> (\<exists>d. v = Some d \<and> d \<le> b)"
  by (cases v) (simp_all add: sql_le_def)

lemma sql_lt_Some: "sql_lt v (Some b) \<longleftrightarrow> (\<exists>d. v = Some d \<and> d < b)"
  by (cases v) (simp_all add: sql_lt_def)

lemma Status_14_Some:
  "Status_14 (Some d) =
     (if d < 0 then ''Expired'' else if d \<le> 1 then ''Critical''
      else if d \<le> 3 then ''Warning'' else ''Safe'')"
  by (simp add: Status_14_def sql_lt_def sql_le_def)

lemma q14_fields:
  "q14_Days_Until_Expiry (select_14 clk fl) = Days_Until_Expiry clk fl"
  "q14_Status (select_14 clk fl) = Status_14 (Days_Until_Expiry clk fl)"
  by (simp_all add: select_14_def)

lemma map_days_select_14:
  "map q14_Days_Until_Expiry (map (select_14 clk) fls) = map (Days_Until_Expiry clk) fls"
  by (simp add: q14_fields)

lemma Days_Until_Expiry_date:
  assumes "valid_ymd y" "fl_Expiry_Date fl = Some (strftime_date y)"
  shows "Days_Until_Expiry clk fl
         = Some ((of_int (computeJD y) - of_int (computeJD (now_date clk)) - of_nat (now_ms clk)) / 86400000)"
  using assms
  by (simp add: Days_Until_Expiry_def julianday_strftime_date julianday_now_def sql_sub_def
      diff_divide_distrib add_divide_distrib del: strftime_date.simps computeJD.simps)

lemma Days_Until_Expiry_yesterday:
  assumes "valid_ymd y" "fl_Expiry_Date fl = Some (strftime_date y)"
    and "computeJD y + 86400000 = computeJD (now_date clk)"
  shows "\<exists>d. Days_Until_Expiry clk fl = Some d \<and> d \<le> - 1"
proof -
  have jd: "of_int (computeJD y) - of_int (computeJD (now_date clk)) = (- 86400000 :: rat)"
    using assms(3)[symmetric] by simp
  define d where "d = (- 86400000 - of_nat (now_ms clk)) / (86400000 :: rat)"
  have "Days_Until_Expiry clk fl = Some d"
    using Days_Until_Expiry_date[OF assms(1,2), of clk] by (simp only: jd d_def)
  moreover have "d \<le> - 1"
    unfolding d_def by (simp add: divide_le_eq)
  ultimately show ?thesis by blast
qed

text \<open>
  Report 14 holds a listing exactly when its days until expiry (the Julian day of
  \<open>Expiry_Date\<close> minus that of the current moment) are at most 5; the status of a
  row is \<open>Expired\<close> below 0, else \<open>Critical\<close> up to 1, else \<open>Warning\<close> up to
  3, else \<open>Safe\<close>; the rows ascend by days until expiry; and a listing whose
  \<open>Expiry_Date\<close> is the day before the current date is in the report as
  \<open>Expired\<close>.
\<close>

theorem query_14_expiring_food_spec:
  "mset (query_14_expiring_food clk db)
     = mset (map (select_14 clk)
         (filter (\<lambda>fl. \<exists>d. Days_Until_Expiry clk fl = Some d \<and> d \<le> 5) (food_listings db)))
   \<and> (\<forall>r \<in> set (query_14_expiring_food clk db).
         \<exists>d. q14_Days_Until_Expiry r = Some d \<and> d \<le> 5
           \<and> q14_Status r = (if d < 0 then ''Expired'' else if d \<le> 1 then ''Critical''
                              else if d \<le> 3 then ''Warning'' else ''Safe''))
   \<and> sorted (map q14_Days_Until_Expiry (query_14_expiring_food clk db))
   \<and> (\<forall>fl y. fl \<in> set (food_listings db) \<and> valid_ymd y
         \<and> fl_Expiry_Date fl = Some (strftime_date y)
         \<and> computeJD y + 86400000 = computeJD (now_date clk)
         \<longrightarrow> select_14 clk fl \<in> set (query_14_expiring_food clk db)
             \<and> q14_Status (select_14 clk fl) = ''Expired'')"
proof (intro conjI ballI allI impI)
  show "mset (query_14_expiring_food clk db)
     = mset (map (select_14 clk)
         (filter (\<lambda>fl. \<exists>d. Days_Until_Expiry clk fl = Some d \<and> d \<le> 5) (food_listings db)))"
    by (simp add: query_14_expiring_food_def mset_order_by_asc sql_le_Some)
next
  fix r assume "r \<in> set (query_14_expiring_food clk db)"
  then obtain fl where fl: "r = select_14 clk fl" "sql_le (Days_Until_Expiry clk fl) (Some 5)"
    by (auto simp: query_14_expiring_food_def set_order_by_asc)
  then obtain d where d: "Days_Until_Expiry clk fl = Some d" "d \<le> 5"
    by (auto simp: sql_le_Some)
  show "\<exists>d. q14_Days_Until_Expiry r = Some d \<and> d \<le> 5
           \<and> q14_Status r = (if d < 0 then ''Expired'' else if d \<le> 1 then ''Critical''
                              else if d \<le> 3 then ''Warning'' else ''Safe'')"
    using d by (simp only: fl(1) q14_fields Status_14_Some) blast
next
  show "sorted (map q14_Days_Until_Expiry (query_14_expiring_food clk db))"
    by (simp only: query_14_expiring_food_def map_days_select_14 sorted_order_by_asc)
next
  fix fl y
  assume a: "fl \<in> set (food_listings db) \<and> valid_ymd y
         \<and> fl_Expiry_Date fl = Some (strftime_date y)
         \<and> computeJD y + 86400000 = computeJD (now_date clk)"
  then obtain d where d: "Days_Until_Expiry clk fl = Some d" "d \<le> - 1"
    using Days_Until_Expiry_yesterday[of y fl clk] by blast
  then have "sql_le (Days_Until_Expiry clk fl) (Some 5)" by (simp add: sql_le_Some)
  then show "select_14 clk fl \<in> set (query_14_expiring_food clk db)"
    using a by (simp add: query_14_expiring_food_def set_order_by_asc)
  show "q14_Status (select_14 clk fl) = ''Expired''"
    using d by (simp only: q14_fields Status_14_Some) simp
qed

lemma computeJD_yesterday: "computeJD (2026, 11, 3) + 86400000 = computeJD (2026, 11, 4)"
  by (simp add: Let_def)

lemma computeJD_month_end: "computeJD (2026, 10, 31) + 86400000 = computeJD (2026, 11, 1)"
  by (simp add: Let_def)

lemma computeJD_leap_day: "computeJD (2028, 2, 29) + 86400000 = computeJD (2028, 3, 1)"
  by (simp add: Let_def)

theorem query_14_expiring_food_spec_witness:
  "soup \<in> set (food_listings db_purge) \<and> valid_ymd (2026, 11, 3)
   \<and> fl_Expiry_Date soup = Some (strftime_date (2026, 11, 3))
   \<and> computeJD (2026, 11, 3) + 86400000 = computeJD (now_date clk0)
   \<and> select_14 clk0 soup \<in> set (query_14_expiring_food clk0 db_purge)
   \<and> q14_Status (select_14 clk0 soup) = ''Expired''
   \<and> q14_Days_Until_Expiry (select_14 clk0 soup) = Some (- (25 / 24))"
proof -
  have h: "soup \<in> set (food_listings db_purge) \<and> valid_ymd (2026, 11, 3)
      \<and> fl_Expiry_Date soup = Some (strftime_date (2026, 11, 3))
      \<and> computeJD (2026, 11, 3) + 86400000 = computeJD (now_date clk0)"
    using computeJD_yesterday by (simp add: db_purge_def soup_def clk0_def text_yesterday del: strftime_date.simps computeJD.simps)
  have d: "q14_Days_Until_Expiry (select_14 clk0 soup) = Some (- (25 / 24))"
    using Days_Until_Expiry_date[of "(2026, 11, 3)" soup clk0] h
    by (simp add: q14_fields clk0_def Let_def)
  from query_14_expiring_food_spec[of clk0 db_purge] h d show ?thesis by blast
qed

subsection \<open>Joins\<close>

lemma sql_eq_Some_left: "sql_eq (Some a) v \<longleftrightarrow> v = Some a"
  by (cases v) (auto simp: sql_eq_def)

lemma sql_eq_Some_right: "sql_eq v (Some a) \<longleftrightarrow> v = Some a"
  by (cases v) (auto simp: sql_eq_def)

lemma filter_inner_join_left:
  "filter (\<lambda>(a, b). P a) (inner_join xs ys on) = inner_join (filter P xs) ys on"
  by (induction xs) (simp_all add: inner_join_def filter_map comp_def)

lemma left_join_unmatched:
  assumes "\<And>x c. on x c \<Longrightarrow> f c \<noteq> None"
  shows "filter (\<lambda>(x, c). Option.bind c f = None) (left_join xs ys on)
         = map (\<lambda>x. (x, None)) (filter (\<lambda>x. filter (on x) ys = []) xs)"
proof (induction xs)
  case Nil
  show ?case by (simp add: left_join_def)
next
  case (Cons x xs)
  have "filter (\<lambda>(x, c). Option.bind c f = None) (map (\<lambda>y. (x, Some y)) (filter (on x) ys)) = []"
    using assms by (auto simp: filter_empty_conv)
  with Cons show ?case by (simp add: left_join_def)
qed

subsection \<open>Report 15\<close>

lemma from_15_unsorted:
  "filter (\<lambda>(flp, c). Option.bind c c_Food_ID = None)
     (left_join
        (inner_join (food_listings db) (providers db)
           (\<lambda>fl p. sql_eq (fl_Provider_ID fl) (Some (p_Provider_ID p))))
        (claims db)
        (\<lambda>(fl, p) c. sql_eq (Some (fl_Food_ID fl)) (c_Food_ID c)))
   = concat (map (\<lambda>fl. map (\<lambda>p. ((fl, p), None)) (providers_of db fl))
               (filter (unclaimed db) (food_listings db)))"
proof -
  have "filter (\<lambda>(flp, c). Option.bind c c_Food_ID = None)
     (left_join
        (inner_join (food_listings db) (providers db)
           (\<lambda>fl p. sql_eq (fl_Provider_ID fl) (Some (p_Provider_ID p))))
        (claims db)
        (\<lambda>(fl, p) c. sql_eq (Some (fl_Food_ID fl)) (c_Food_ID c)))
    = map (\<lambda>x. (x, None))
        (filter (\<lambda>(fl, p). unclaimed db fl)
           (inner_join (food_listings db) (providers db)
              (\<lambda>fl p. sql_eq (fl_Provider_ID fl) (Some (p_Provider_ID p)))))"
    by (subst left_join_unmatched)
       (auto simp: sql_eq_Some_left unclaimed_def claims_on_def split_def intro!: filter_cong)
  also have "\<dots> = map (\<lambda>x. (x, None))
        (inner_join (filter (unclaimed db) (food_listings db)) (providers db)
              (\<lambda>fl p. sql_eq (fl_Provider_ID fl) (Some (p_Provider_ID p))))"
    by (simp only: filter_inner_join_left)
  also have "\<dots> = concat (map (\<lambda>fl. map (\<lambda>p. ((fl, p), None)) (providers_of db fl))
               (filter (unclaimed db) (food_listings db)))"
    by (simp add: inner_join_def providers_of_def sql_eq_Some_right map_concat comp_def)
  finally show ?thesis .
qed

lemma mset_from_15:
  "mset (from_15 db)
   = mset (concat (map (\<lambda>fl. map (\<lambda>p. ((fl, p), None)) (providers_of db fl))
               (filter (unclaimed db) (food_listings db))))"
  by (simp only: from_15_def mset_order_by_asc from_15_unsorted)

lemma q15_Expiry_Date_select: "q15_Expiry_Date (select_15 clk r) = fl_Expiry_Date (fst (fst r))"
  by (cases r) (auto simp: select_15_def)

lemma sorted_query_15: "sorted (map q15_Expiry_Date (query_15_unclaimed_food clk db))"
proof -
  have "map q15_Expiry_Date (query_15_unclaimed_food clk db)
        = map (\<lambda>((fl, p), c). fl_Expiry_Date fl) (from_15 db)"
    by (simp add: query_15_unclaimed_food_def q15_Expiry_Date_select split_def)
  also have "sorted \<dots>" by (simp only: from_15_def sorted_order_by_asc)
  finally show ?thesis .
qed

lemma concat_map_singletons:
  assumes "\<And>x. x \<in> set xs \<Longrightarrow> length (f x) = 1"
  shows "map fst (concat (map (\<lambda>x. map (Pair x) (f x)) xs)) = xs"
  using assms
proof (induction xs)
  case Nil
  show ?case by simp
next
  case (Cons x xs)
  have "length (f x) = 1" using Cons.prems by simp
  then obtain y where y: "f x = [y]" by (cases "f x") auto
  have "map fst (concat (map (\<lambda>x. map (Pair x) (f x)) xs)) = xs"
    using Cons.IH Cons.prems by simp
  with y show ?case by simp
qed

lemma mset_query_15: "mset (query_15_unclaimed_food clk db) = mset (spec_15 clk db)"
proof -
  let ?L = "concat (map (\<lambda>fl. map (\<lambda>p. ((fl, p), None :: claim option)) (providers_of db fl))
               (filter (unclaimed db) (food_listings db)))"
  have "mset (map (select_15 clk) (from_15 db)) = mset (map (select_15 clk) ?L)"
    by (simp only: mset_map mset_from_15)
  also have "map (select_15 clk) ?L = spec_15 clk db"
    by (simp add: spec_15_def map_concat comp_def)
  finally show ?thesis by (simp only: query_15_unclaimed_food_def)
qed

text \<open>
  C1, as the code has it. Report 15 joins the listings to the providers with an
  inner join: it returns the unclaimed listings that have a provider row, once for
  each provider row with the listing's \<open>Provider_ID\<close>, with that provider's name and
  contact, ascending by \<open>Expiry_Date\<close>. A listing with a claim row of any status is
  not returned. Where every listing has exactly one provider row, the listings
  returned are exactly the unclaimed ones.
\<close>

theorem query_15_unclaimed_food_spec:
  "mset (query_15_unclaimed_food clk db) = mset (spec_15 clk db)
   \<and> sorted (map q15_Expiry_Date (query_15_unclaimed_food clk db))
   \<and> (\<forall>fl p. q15_Provider_Name (select_15 clk ((fl, p), None)) = p_Name p
            \<and> q15_Provider_Contact (select_15 clk ((fl, p), None)) = p_Contact p
            \<and> q15_Food_Name (select_15 clk ((fl, p), None)) = fl_Food_Name fl)
   \<and> ((\<forall>fl \<in> set (food_listings db). length (providers_of db fl) = 1)
        \<longrightarrow> mset (map (\<lambda>((fl, p), c). fl) (from_15 db))
            = mset (filter (unclaimed db) (food_listings db)))"
proof (intro conjI impI allI)
  show "mset (query_15_unclaimed_food clk db) = mset (spec_15 clk db)"
    by (rule mset_query_15)
next
  show "sorted (map q15_Expiry_Date (query_15_unclaimed_food clk db))"
    by (rule sorted_query_15)
next
  fix fl p
  show "q15_Provider_Name (select_15 clk ((fl, p), None)) = p_Name p"
    and "q15_Provider_Contact (select_15 clk ((fl, p), None)) = p_Contact p"
    and "q15_Food_Name (select_15 clk ((fl, p), None)) = fl_Food_Name fl"
    by (simp_all add: select_15_def)
next
  assume one: "\<forall>fl \<in> set (food_listings db). length (providers_of db fl) = 1"
  let ?L = "concat (map (\<lambda>fl. map (\<lambda>p. ((fl, p), None :: claim option)) (providers_of db fl))
               (filter (unclaimed db) (food_listings db)))"
  have "mset (map (\<lambda>((fl, p), c). fl) (from_15 db)) = mset (map (\<lambda>((fl, p), c). fl) ?L)"
    by (simp only: mset_map mset_from_15)
  also have "map (\<lambda>((fl, p), c). fl) ?L
      = map fst (concat (map (\<lambda>fl. map (Pair fl) (providers_of db fl))
               (filter (unclaimed db) (food_listings db))))"
    by (simp add: map_concat comp_def)
  also have "\<dots> = filter (unclaimed db) (food_listings db)"
    using one by (intro concat_map_singletons) simp
  finally show "mset (map (\<lambda>((fl, p), c). fl) (from_15 db))
            = mset (filter (unclaimed db) (food_listings db))" .
qed

lemma unclaimed_dangling:
  "filter (unclaimed db_dangling) (food_listings db_dangling) = [rice, soup]"
  by (simp add: db_dangling_def unclaimed_def claims_on_def)

lemma providers_of_dangling:
  "providers_of db_dangling rice = [pA]" "providers_of db_dangling soup = []"
  by (simp_all add: providers_of_def db_dangling_def rice_def soup_def pA_def)

theorem query_15_unclaimed_food_counterexample:
  "filter (unclaimed db_dangling) (food_listings db_dangling) = [rice, soup]
   \<and> map q15_Food_Name (query_15_unclaimed_food clk0 db_dangling) = [''Rice'']"
proof -
  have "mset (query_15_unclaimed_food clk0 db_dangling) = mset [select_15 clk0 ((rice, pA), None)]"
    using mset_query_15[of clk0 db_dangling]
    by (simp add: spec_15_def unclaimed_dangling providers_of_dangling)
  then have "query_15_unclaimed_food clk0 db_dangling = [select_15 clk0 ((rice, pA), None)]"
    by (metis mset_single_iff_right)
  then show ?thesis by (simp add: unclaimed_dangling select_15_def rice_def)
qed

theorem query_15_unclaimed_food_spec_witness:
  "length (providers_of db_unclaimed rice) = 1
   \<and> mset (map (\<lambda>((fl, p), c). fl) (from_15 db_unclaimed)) = mset [rice]
   \<and> mset (query_15_unclaimed_food clk0 db_unclaimed) = mset [select_15 clk0 ((rice, pA), None)]
   \<and> q15_Provider_Name (select_15 clk0 ((rice, pA), None)) = ''A''"
proof -
  have p: "providers_of db_unclaimed rice = [pA]"
    by (simp add: providers_of_def db_unclaimed_def rice_def pA_def)
  have u: "filter (unclaimed db_unclaimed) (food_listings db_unclaimed) = [rice]"
    by (simp add: db_unclaimed_def unclaimed_def claims_on_def)
  have l: "food_listings db_unclaimed = [rice]" by (simp add: db_unclaimed_def)
  from query_15_unclaimed_food_spec[of clk0 db_unclaimed] p u l show ?thesis
    by (simp add: spec_15_def pA_def)
qed

section \<open>Dates that are not written year-month-day\<close>

lemma text_2026_11_04: "strftime_date (2026, 11, 4) = ''2026-11-04''"
  by code_simp

lemma text_today: "date_now clk0 = ''2026-11-04''"
  by (simp add: date_now_def clk0_def text_2026_11_04 del: strftime_date.simps)

lemma expired_bread: "expired clk0 bread"
  by (simp add: expired_def text_today bread_def sql_lt_def less_char_def)

lemma not_expired_milk: "\<not> expired clk0 milk"
  by (simp add: expired_def text_today milk_def sql_lt_def less_char_def)

text \<open>
  C3. \<open>clean_expired_food\<close> compares \<open>Expiry_Date\<close> with \<open>date('now')\<close> as
  TEXT, and that is the order of the calendar only on dates written year-month-day.
  On the table above, on 2026-11-04, it deletes the listing that expires on 1/5/2030,
  keeps the listing that expired on 3/17/2025, and returns 1.
\<close>

theorem clean_expired_food_month_first:
  "fl_Expiry_Date bread = Some ''1/5/2030'' \<and> fl_Expiry_Date milk = Some ''3/17/2025''
   \<and> date_now clk0 = ''2026-11-04''
   \<and> food_listings db_csv = [bread, milk]
   \<and> clean_expired_food clk0 (Some db_csv) = (1, Some (db_csv\<lparr>food_listings := [milk]\<rparr>))"
  by (simp add: clean_expired_food_def db_csv_def expired_bread not_expired_milk text_today)
    (simp add: bread_def milk_def)

lemma days_pie: "Days_Until_Expiry clk0 pie = None"
  by (simp add: Days_Until_Expiry_def julianday_def pie_def sql_sub_def)

lemma days_stew: "Days_Until_Expiry clk0 stew = None"
  by (simp add: Days_Until_Expiry_def julianday_def stew_def sql_sub_def)

lemma text_2026_11_05: "strftime_date (2026, 11, 5) = ''2026-11-05''"
  by code_simp

lemma days_pie_iso:
  "Days_Until_Expiry clk0 (pie\<lparr>fl_Expiry_Date := Some ''2026-11-05''\<rparr>) = Some (23 / 24)"
proof -
  have t: "fl_Expiry_Date (pie\<lparr>fl_Expiry_Date := Some ''2026-11-05''\<rparr>)
             = Some (strftime_date (2026, 11, 5))"
    by (simp add: text_2026_11_05 del: strftime_date.simps)
  have v: "valid_ymd (2026, 11, 5)" by simp
  from Days_Until_Expiry_date[OF v t, of clk0] show ?thesis by (simp add: clk0_def Let_def)
qed

lemma days_stew_iso:
  "Days_Until_Expiry clk0 (stew\<lparr>fl_Expiry_Date := Some ''2026-11-03''\<rparr>) = Some (- (25 / 24))"
proof -
  have t: "fl_Expiry_Date (stew\<lparr>fl_Expiry_Date := Some ''2026-11-03''\<rparr>)
             = Some (strftime_date (2026, 11, 3))"
    by (simp add: text_yesterday del: strftime_date.simps)
  have v: "valid_ymd (2026, 11, 3)" by simp
  from Days_Until_Expiry_date[OF v t, of clk0] show ?thesis by (simp add: clk0_def Let_def)
qed

text \<open>
  C2. \<open>julianday\<close> is NULL on a date written month/day/year, and a NULL
  difference selects nothing. On 2026-11-04 at 01:00 the listing that expires on
  11/5/2026 and the listing that expired on 11/3/2026 are both missing from Report
  14. With the same dates written 2026-11-05 and 2026-11-03 the report lists both:
  the second as \<open>Expired\<close>, 25 hours past, the first as \<open>Critical\<close>, 23 hours
  ahead.
\<close>

theorem query_14_expiring_food_month_first:
  "map fl_Expiry_Date (food_listings db_csv_soon) = [Some ''11/5/2026'', Some ''11/3/2026'']
   \<and> now_date clk0 = (2026, 11, 4)
   \<and> query_14_expiring_food clk0 db_csv_soon = []
   \<and> map (\<lambda>r. (q14_Food_Name r, q14_Expiry_Date r, q14_Days_Until_Expiry r, q14_Status r))
        (query_14_expiring_food clk0 db_iso_soon)
      = [(''Stew'', Some ''2026-11-03'', Some (- (25 / 24)), ''Expired''),
         (''Pie'', Some ''2026-11-05'', Some (23 / 24), ''Critical'')]"
proof (intro conjI)
  show "map fl_Expiry_Date (food_listings db_csv_soon) = [Some ''11/5/2026'', Some ''11/3/2026'']"
    by (simp add: db_csv_soon_def pie_def stew_def)
  show "now_date clk0 = (2026, 11, 4)" by (simp add: clk0_def)
  show "query_14_expiring_food clk0 db_csv_soon = []"
    by (simp add: query_14_expiring_food_def db_csv_soon_def days_pie days_stew sql_le_def
        order_by_asc_def)
  show "map (\<lambda>r. (q14_Food_Name r, q14_Expiry_Date r, q14_Days_Until_Expiry r, q14_Status r))
        (query_14_expiring_food clk0 db_iso_soon)
      = [(''Stew'', Some ''2026-11-03'', Some (- (25 / 24)), ''Expired''),
         (''Pie'', Some ''2026-11-05'', Some (23 / 24), ''Critical'')]"
    by (simp add: query_14_expiring_food_def db_iso_soon_def days_pie_iso days_stew_iso sql_le_def
        sql_lt_def order_by_asc_def select_14_def Status_14_def)
      (simp add: pie_def stew_def)
qed

section \<open>Properties of the reports that aggregate\<close>

subsection \<open>Grouping and rounding\<close>

lemma sum_list_map_mset_cong:
  fixes f :: "'a \<Rightarrow> 'b::comm_monoid_add"
  assumes "mset xs = mset ys"
  shows "sum_list (map f xs) = sum_list (map f ys)"
proof -
  have "mset (map f xs) = mset (map f ys)" using assms by (simp only: mset_map)
  then have "sum_mset (mset (map f xs)) = sum_mset (mset (map f ys))" by (rule arg_cong)
  then show ?thesis by (simp only: sum_mset_sum_list)
qed

lemma length_filter_key: "length (filter (\<lambda>x. key x = k) xs) = count_list (map key xs) k"
  by (induction xs) simp_all

lemma group_sizes:
  "sum_list (map (\<lambda>k. length (filter (\<lambda>x. key x = k) xs)) (remdups (map key xs))) = length xs"
proof -
  have "sum_list (map (\<lambda>k. length (filter (\<lambda>x. key x = k) xs)) (remdups (map key xs)))
        = (\<Sum>k\<in>set (map key xs). count_list (map key xs) k)"
    by (simp add: sum_list_distinct_conv_sum_set length_filter_key)
  also have "\<dots> = length (map key xs)" by (rule sum_count_set) simp_all
  finally show ?thesis by simp
qed

lemma sum_list_scaled:
  fixes c d :: rat
  shows "sum_list (map (\<lambda>k. of_nat (g k) * c / d) ks) = of_nat (sum_list (map g ks)) * c / d"
  by (induction ks) (simp_all add: add_divide_distrib distrib_right)

lemma half_up_error:
  fixes y :: rat
  shows "\<bar>of_int \<lfloor>y + 1 / 2\<rfloor> / 100 - y / 100\<bar> \<le> 1 / 200"
proof -
  define n :: rat where "n = of_int \<lfloor>y + 1 / 2\<rfloor>"
  have 1: "n \<le> y + 1 / 2" unfolding n_def by (rule of_int_floor_le)
  have 2: "y + 1 / 2 < n + 1" unfolding n_def using floor_correct[of "y + 1 / 2"] by simp
  have 3: "\<bar>n - y\<bar> \<le> 1 / 2" using 1 2 by linarith
  have 4: "n / 100 - y / 100 = (n - y) / 100" by (rule diff_divide_distrib[symmetric])
  have "\<bar>(n - y) / 100\<bar> = \<bar>n - y\<bar> / 100" by simp
  also have "\<dots> \<le> (1 / 2) / 100" using 3 by (rule divide_right_mono) simp
  also have "\<dots> = 1 / 200" by simp
  finally show ?thesis unfolding n_def[symmetric] 4 .
qed

lemma round2_error: "\<bar>round2 x - x\<bar> \<le> 1 / 200"
proof (cases "0 \<le> x")
  case True
  then have "round2 x - x = of_int \<lfloor>x * 100 + 1 / 2\<rfloor> / 100 - (x * 100) / 100"
    by (simp add: round2_def)
  then show ?thesis using half_up_error[of "x * 100"] by (simp only:)
next
  case False
  then have "round2 x - x = - (of_int \<lfloor>- x * 100 + 1 / 2\<rfloor> / 100 - (- x * 100) / 100)"
    by (simp add: round2_def)
  then have "\<bar>round2 x - x\<bar> = \<bar>of_int \<lfloor>- x * 100 + 1 / 2\<rfloor> / 100 - (- x * 100) / 100\<bar>"
    by (simp only: abs_minus_cancel)
  then show ?thesis using half_up_error[of "- x * 100"] by (simp only:)
qed

lemma round2_decimals: "\<exists>n::int. round2 x = of_int n / 100"
proof (cases "0 \<le> x")
  case True
  then have "round2 x = of_int \<lfloor>x * 100 + 1 / 2\<rfloor> / 100" by (simp add: round2_def)
  then show ?thesis by (rule exI)
next
  case False
  then have "round2 x = of_int (- \<lfloor>- x * 100 + 1 / 2\<rfloor>) / 100" by (simp add: round2_def)
  then show ?thesis by (rule exI)
qed

lemma sum_list_round2_error:
  "\<bar>sum_list (map (\<lambda>x. round2 (f x)) xs) - sum_list (map f xs)\<bar> \<le> of_nat (length xs) / 200"
proof (induction xs)
  case Nil
  show ?case by simp
next
  case (Cons x xs)
  define a where "a = round2 (f x) - f x"
  define b where "b = sum_list (map (\<lambda>x. round2 (f x)) xs) - sum_list (map f xs)"
  have a: "\<bar>a\<bar> \<le> 1 / 200" unfolding a_def by (rule round2_error)
  have b: "\<bar>b\<bar> \<le> of_nat (length xs) / 200" unfolding b_def by (rule Cons.IH)
  have "\<bar>a + b\<bar> \<le> 1 / 200 + of_nat (length xs) / 200" using a b by linarith
  also have "\<dots> = of_nat (length (x # xs)) / 200" by (simp add: add_divide_distrib)
  finally have ab: "\<bar>a + b\<bar> \<le> of_nat (length (x # xs)) / 200" .
  have eq: "sum_list (map (\<lambda>x. round2 (f x)) (x # xs)) - sum_list (map f (x # xs)) = a + b"
    unfolding a_def b_def by simp
  show ?case unfolding eq by (rule ab)
qed

subsection \<open>Report 10\<close>

lemma q10_fields:
  "q10_Status (select_10 db (k, g)) = k"
  "q10_Count (select_10 db (k, g)) = int (length g)"
  "claims db \<noteq> [] \<Longrightarrow> q10_Percentage (select_10 db (k, g))
     = Some (round2 (of_int (int (length g)) * 100 / of_int (int (length (claims db)))))"
  by (simp_all add: select_10_def sql_round2_def sql_percent_def)

lemma rows_10:
  "map (select_10 db) (group_by c_Status (claims db))
     = map (\<lambda>k. select_10 db (k, filter (\<lambda>c. c_Status c = k) (claims db)))
         (remdups (map c_Status (claims db)))"
  by (simp add: group_by_def comp_def)

lemma row_10_of_group:
  assumes "claims db \<noteq> []" and "r \<in> set (map (select_10 db) (group_by c_Status (claims db)))"
  shows "q10_Count r = int (length (filter (\<lambda>c. c_Status c = q10_Status r) (claims db)))
       \<and> q10_Percentage r
           = Some (round2 (of_int (q10_Count r) * 100 / of_int (int (length (claims db)))))"
proof -
  from assms(2) obtain k where r: "r = select_10 db (k, filter (\<lambda>c. c_Status c = k) (claims db))"
    unfolding rows_10 by auto
  show ?thesis unfolding r using assms(1) by (simp add: q10_fields)
qed

lemma exact_shares_10:
  assumes "claims db \<noteq> []"
  shows "sum_list (map (\<lambda>r. of_int (q10_Count r) * 100 / of_int (int (length (claims db))))
           (map (select_10 db) (group_by c_Status (claims db)))) = (100 :: rat)"
proof -
  let ?cs = "claims db"
  let ?n = "\<lambda>k. length (filter (\<lambda>c. c_Status c = k) ?cs)"
  have "map (\<lambda>r. of_int (q10_Count r) * 100 / of_int (int (length ?cs)))
           (map (select_10 db) (group_by c_Status ?cs))
        = map (\<lambda>k. of_nat (?n k) * (100 :: rat) / of_nat (length ?cs)) (remdups (map c_Status ?cs))"
    unfolding rows_10 by (simp add: comp_def q10_fields)
  then have "sum_list (map (\<lambda>r. of_int (q10_Count r) * 100 / of_int (int (length ?cs)))
           (map (select_10 db) (group_by c_Status ?cs)))
        = of_nat (sum_list (map ?n (remdups (map c_Status ?cs)))) * (100 :: rat) / of_nat (length ?cs)"
    by (simp only: sum_list_scaled)
  also have "\<dots> = of_nat (length ?cs) * (100 :: rat) / of_nat (length ?cs)"
    by (simp only: group_sizes)
  also have "\<dots> = 100" using assms by simp
  finally show ?thesis .
qed

lemma percentages_10:
  assumes "claims db \<noteq> []"
  shows "\<exists>ps. map q10_Percentage (query_10_claim_status_distribution db) = map Some ps
            \<and> \<bar>sum_list ps - 100\<bar>
                \<le> of_nat (length (query_10_claim_status_distribution db)) / 200"
proof -
  let ?S = "map (select_10 db) (group_by c_Status (claims db))"
  let ?R = "query_10_claim_status_distribution db"
  let ?f = "\<lambda>r. (of_int (q10_Count r) * 100 / of_int (int (length (claims db))) :: rat)"
  have m: "mset ?R = mset ?S" by (simp only: query_10_claim_status_distribution_def mset_order_by_desc)
  have s: "set ?R = set ?S" by (simp only: query_10_claim_status_distribution_def set_order_by_desc)
  have l: "length ?R = length ?S" using m by (rule mset_eq_length)
  have p: "map q10_Percentage ?R = map Some (map (\<lambda>r. round2 (?f r)) ?R)"
    using row_10_of_group[OF assms] s by (simp add: comp_def)
  have "sum_list (map (\<lambda>r. round2 (?f r)) ?R) = sum_list (map (\<lambda>r. round2 (?f r)) ?S)"
    using m by (rule sum_list_map_mset_cong)
  moreover have "\<bar>sum_list (map (\<lambda>r. round2 (?f r)) ?S) - sum_list (map ?f ?S)\<bar>
      \<le> of_nat (length ?S) / 200"
    by (rule sum_list_round2_error)
  ultimately have "\<bar>sum_list (map (\<lambda>r. round2 (?f r)) ?R) - 100\<bar> \<le> of_nat (length ?R) / 200"
    by (simp only: exact_shares_10[OF assms] l)
  with p show ?thesis by blast
qed

text \<open>
  C6. Where the claims table has a row, Report 10 has one row for each distinct
  \<open>Status\<close> of the table. The \<open>Count\<close> of a row is the number of claims with the
  row's status. Its \<open>Percentage\<close> is a number of hundredths at most 0.005 away from
  that count times 100 over the number of all claims. The rows descend by \<open>Count\<close>.
  The percentages add up to 100 with an error of at most 0.005 for each row.
\<close>

theorem query_10_claim_status_distribution_spec:
  assumes "claims db \<noteq> []"
  shows "mset (map q10_Status (query_10_claim_status_distribution db))
           = mset (remdups (map c_Status (claims db)))
   \<and> (\<forall>r \<in> set (query_10_claim_status_distribution db).
         q10_Count r = int (length (filter (\<lambda>c. c_Status c = q10_Status r) (claims db)))
         \<and> (\<exists>p n. q10_Percentage r = Some p \<and> p = of_int n / 100
               \<and> \<bar>p - of_int (q10_Count r) * 100 / of_int (int (length (claims db)))\<bar>
                   \<le> 1 / 200))
   \<and> sorted (rev (map q10_Count (query_10_claim_status_distribution db)))
   \<and> (\<exists>ps. map q10_Percentage (query_10_claim_status_distribution db) = map Some ps
            \<and> \<bar>sum_list ps - 100\<bar>
                \<le> of_nat (length (query_10_claim_status_distribution db)) / 200)"
proof (intro conjI ballI)
  have a: "map q10_Status (map (select_10 db) (group_by c_Status (claims db)))
          = remdups (map c_Status (claims db))"
    unfolding rows_10 by (simp add: comp_def q10_fields)
  have b: "mset (map q10_Status (query_10_claim_status_distribution db))
          = mset (map q10_Status (map (select_10 db) (group_by c_Status (claims db))))"
    by (simp only: query_10_claim_status_distribution_def mset_map mset_order_by_desc)
  show "mset (map q10_Status (query_10_claim_status_distribution db))
           = mset (remdups (map c_Status (claims db)))"
    by (simp only: b a)
next
  fix r assume "r \<in> set (query_10_claim_status_distribution db)"
  then have r: "r \<in> set (map (select_10 db) (group_by c_Status (claims db)))"
    by (simp only: query_10_claim_status_distribution_def set_order_by_desc)
  show "q10_Count r = int (length (filter (\<lambda>c. c_Status c = q10_Status r) (claims db)))"
    using row_10_of_group[OF assms r] by (rule conjunct1)
  let ?share = "of_int (q10_Count r) * 100 / of_int (int (length (claims db))) :: rat"
  have p: "q10_Percentage r = Some (round2 ?share)"
    using row_10_of_group[OF assms r] by (rule conjunct2)
  obtain n :: int where n: "round2 ?share = of_int n / 100"
    using round2_decimals[of ?share] by blast
  have e: "\<bar>round2 ?share - ?share\<bar> \<le> 1 / 200" by (rule round2_error)
  show "\<exists>p n. q10_Percentage r = Some p \<and> p = of_int n / 100
               \<and> \<bar>p - of_int (q10_Count r) * 100 / of_int (int (length (claims db)))\<bar>
                   \<le> 1 / 200"
    using p n e by blast
next
  show "sorted (rev (map q10_Count (query_10_claim_status_distribution db)))"
    by (simp only: query_10_claim_status_distribution_def sorted_order_by_desc)
next
  show "\<exists>ps. map q10_Percentage (query_10_claim_status_distribution db) = map Some ps
            \<and> \<bar>sum_list ps - 100\<bar>
                \<le> of_nat (length (query_10_claim_status_distribution db)) / 200"
    using assms by (rule percentages_10)
qed

lemma floor_thirds: "\<lfloor>(40003 :: rat) / 6\<rfloor> = 6667" "\<lfloor>(20003 :: rat) / 6\<rfloor> = 3333"
  by (rule floor_unique, simp, simp)+

lemma report_10_thirds:
  "query_10_claim_status_distribution db_thirds
     = [\<lparr>q10_Status = Some ''Pending'', q10_Count = 2, q10_Percentage = Some (6667 / 100)\<rparr>,
        \<lparr>q10_Status = Some ''Completed'', q10_Count = 1, q10_Percentage = Some (3333 / 100)\<rparr>]"
  by (simp add: query_10_claim_status_distribution_def order_by_desc_def group_by_def
      select_10_def sql_round2_def sql_percent_def round2_def db_thirds_def
      claim1_def claim2_def claim3_def floor_thirds)

theorem query_10_claim_status_distribution_spec_witness:
  "claims db_thirds \<noteq> []
   \<and> query_10_claim_status_distribution db_thirds
     = [\<lparr>q10_Status = Some ''Pending'', q10_Count = 2, q10_Percentage = Some (6667 / 100)\<rparr>,
        \<lparr>q10_Status = Some ''Completed'', q10_Count = 1, q10_Percentage = Some (3333 / 100)\<rparr>]
   \<and> length (filter (\<lambda>c. c_Status c = Some ''Pending'') (claims db_thirds)) = 2
   \<and> (\<exists>ps. map q10_Percentage (query_10_claim_status_distribution db_thirds) = map Some ps
            \<and> \<bar>sum_list ps - 100\<bar>
                \<le> of_nat (length (query_10_claim_status_distribution db_thirds)) / 200)"
proof -
  have h: "claims db_thirds \<noteq> []" by (simp add: db_thirds_def)
  let ?r = "\<lparr>q10_Status = Some ''Pending'', q10_Count = 2, q10_Percentage = Some (6667 / 100)\<rparr>"
  have m: "?r \<in> set (query_10_claim_status_distribution db_thirds)"
    by (simp only: report_10_thirds) simp
  from query_10_claim_status_distribution_spec[OF h] m
  have "q10_Count ?r = int (length (filter (\<lambda>c. c_Status c = q10_Status ?r) (claims db_thirds)))"
    by blast
  then have c: "length (filter (\<lambda>c. c_Status c = Some ''Pending'') (claims db_thirds)) = 2"
    by simp
  from query_10_claim_status_distribution_spec[OF h] h c report_10_thirds show ?thesis by blast
qed

subsection \<open>Report 13\<close>

lemma from_13_two_claims:
  "from_13 db_two_claims = [((pA, Some rice), Some claim1), ((pA, Some rice), Some claim2)]"
  by (simp add: from_13_def db_two_claims_def left_join_def sql_eq_def pA_def rice_def
      claim1_def claim2_def)

lemma group_13_two_claims:
  "group_by (\<lambda>((p, fl), c). (p_Provider_ID p, p_Name p, p_Type p, p_City p)) (from_13 db_two_claims)
     = [((1, ''A'', ''Restaurant'', ''City X''),
         [((pA, Some rice), Some claim1), ((pA, Some rice), Some claim2)])]"
  by (simp add: from_13_two_claims group_by_def pA_def)

text \<open>
  C5. Report 13 counts and adds over the rows of the join of the listings with their
  claims, so a listing with two claims is counted twice. One provider with one
  listing of quantity 10 and two claims on it, one \<open>Completed\<close> and one \<open>Pending\<close>,
  is reported with 2 items listed, a quantity of 20 listed, 10 donated and a rate of
  50 percent.
\<close>

theorem query_13_provider_donations_fan_out:
  "providers db_two_claims = [pA] \<and> food_listings db_two_claims = [rice]
   \<and> fl_Provider_ID rice = Some (p_Provider_ID pA) \<and> fl_Quantity rice = 10
   \<and> map (\<lambda>c. (c_Food_ID c, c_Status c)) (claims db_two_claims)
       = [(Some (fl_Food_ID rice), Some ''Completed''), (Some (fl_Food_ID rice), Some ''Pending'')]
   \<and> query_13_provider_donations db_two_claims
       = [\<lparr>q13_Name = ''A'', q13_Type = ''Restaurant'', q13_City = ''City X'',
           q13_Items_Listed = 2, q13_Total_Quantity_Listed = Some 20,
           q13_Quantity_Donated = Some 10, q13_Donation_Rate_Percent = Some 50\<rparr>]"
proof (intro conjI)
  show "providers db_two_claims = [pA]" "food_listings db_two_claims = [rice]"
    by (simp_all add: db_two_claims_def)
  show "fl_Provider_ID rice = Some (p_Provider_ID pA)" "fl_Quantity rice = 10"
    by (simp_all add: rice_def pA_def)
  show "map (\<lambda>c. (c_Food_ID c, c_Status c)) (claims db_two_claims)
       = [(Some (fl_Food_ID rice), Some ''Completed''), (Some (fl_Food_ID rice), Some ''Pending'')]"
    by (simp add: db_two_claims_def claim1_def claim2_def rice_def)
  have f: "\<lfloor>(10001 :: rat) / 2\<rfloor> = 5000" by (rule floor_unique) simp_all
  have r: "round2 50 = 50" by (simp add: round2_def f)
  show "query_13_provider_donations db_two_claims
       = [\<lparr>q13_Name = ''A'', q13_Type = ''Restaurant'', q13_City = ''City X'',
           q13_Items_Listed = 2, q13_Total_Quantity_Listed = Some 20,
           q13_Quantity_Donated = Some 10, q13_Donation_Rate_Percent = Some 50\<rparr>]"
    unfolding query_13_provider_donations_def group_13_two_claims
    by (simp add: order_by_desc_def select_13_def sql_count_def sql_sum_def non_null_def
        donated_def is_status_def sql_eq_def nullif_def sql_percent_def sql_round2_def r
        rice_def claim1_def claim2_def)
qed

section \<open>Properties of DatabaseSetup\<close>

lemma has_table_create:
  "has_table (create_table_if_not_exists n t st) m \<longleftrightarrow> has_table st m \<or> m = n"
  by (auto simp: create_table_if_not_exists_def has_table_def)

lemma create_existing: "has_table st n \<Longrightarrow> create_table_if_not_exists n t st = st"
  by (simp add: create_table_if_not_exists_def)

lemma create_extends:
  "t_rows t = [] \<Longrightarrow> \<exists>new. create_table_if_not_exists n t st = st @ new
      \<and> list_all (\<lambda>nt. t_rows (snd nt) = [] \<and> \<not> has_table st (fst nt)) new"
  by (cases "has_table st n") (simp_all add: create_table_if_not_exists_def)

lemma has_table_append: "has_table (st @ new) m \<longleftrightarrow> has_table st m \<or> has_table new m"
  by (auto simp: has_table_def)

lemma schema_rows:
  "t_rows providers_table = []" "t_rows receivers_table = []"
  "t_rows food_listings_table = []" "t_rows claims_table = []"
  by (simp_all add: providers_table_def receivers_table_def food_listings_table_def claims_table_def)

lemma extends_step:
  assumes "t_rows t = []"
    and "st1 = st @ new1"
    and "list_all (\<lambda>nt. t_rows (snd nt) = [] \<and> \<not> has_table st (fst nt)) new1"
  shows "\<exists>new. create_table_if_not_exists n t st1 = st @ new
      \<and> list_all (\<lambda>nt. t_rows (snd nt) = [] \<and> \<not> has_table st (fst nt)) new"
proof (cases "has_table st1 n")
  case True
  then have "create_table_if_not_exists n t st1 = st @ new1"
    by (simp add: create_table_if_not_exists_def assms(2))
  with assms(3) show ?thesis by blast
next
  case False
  then have a: "create_table_if_not_exists n t st1 = st @ (new1 @ [(n, t)])"
    by (simp add: create_table_if_not_exists_def assms(2))
  from False have "\<not> has_table st n" by (simp add: assms(2) has_table_append)
  then have "list_all (\<lambda>nt. t_rows (snd nt) = [] \<and> \<not> has_table st (fst nt)) (new1 @ [(n, t)])"
    using assms(1,3) by simp
  with a show ?thesis by blast
qed

lemma create_statements_extends:
  "\<exists>new. create_statements st = st @ new
      \<and> list_all (\<lambda>nt. t_rows (snd nt) = [] \<and> \<not> has_table st (fst nt)) new"
proof -
  obtain n1 where 1: "create_table_if_not_exists ''providers'' providers_table st = st @ n1"
      "list_all (\<lambda>nt. t_rows (snd nt) = [] \<and> \<not> has_table st (fst nt)) n1"
    using create_extends[OF schema_rows(1)] by blast
  obtain n2 where 2: "create_table_if_not_exists ''receivers'' receivers_table
        (create_table_if_not_exists ''providers'' providers_table st) = st @ n2"
      "list_all (\<lambda>nt. t_rows (snd nt) = [] \<and> \<not> has_table st (fst nt)) n2"
    using extends_step[OF schema_rows(2) 1] by blast
  obtain n3 where 3: "create_table_if_not_exists ''food_listings'' food_listings_table
        (create_table_if_not_exists ''receivers'' receivers_table
          (create_table_if_not_exists ''providers'' providers_table st)) = st @ n3"
      "list_all (\<lambda>nt. t_rows (snd nt) = [] \<and> \<not> has_table st (fst nt)) n3"
    using extends_step[OF schema_rows(3) 2] by blast
  show ?thesis unfolding create_statements_def using extends_step[OF schema_rows(4) 3] .
qed

lemma create_statements_has:
  "has_table (create_statements st) m
     \<longleftrightarrow> has_table st m \<or> m \<in> {''providers'', ''receivers'', ''food_listings'', ''claims''}"
  unfolding create_statements_def has_table_create by blast

lemma create_statements_existing:
  assumes "has_table st ''providers''" "has_table st ''receivers''"
    "has_table st ''food_listings''" "has_table st ''claims''"
  shows "create_statements st = st"
  unfolding create_statements_def using assms by (simp add: create_existing)

lemma create_statements_twice: "create_statements (create_statements st) = create_statements st"
  by (rule create_statements_existing) (simp_all only: create_statements_has, simp_all)

text \<open>
  C8. On a database that opens, \<open>create_tables\<close> returns without an exception. The
  storage afterwards is the storage before, followed by the tables that were
  missing, which are empty: no existing table, column or row is changed. Where
  the four tables exist the storage is the same, whatever their rows. For every
  connection a second call leaves the storage of the first. The same holds for
  \<open>create_tables\<close> of the package.
\<close>

theorem create_tables_idempotent:
  "fst (create_tables (Db st)) = Inr () \<and> fst (create_tables_package (Db st)) = Inr ()
   \<and> (\<exists>new. fst (snd (create_tables (Db st))) = Db (st @ new)
          \<and> fst (snd (create_tables_package (Db st))) = Db (st @ new)
          \<and> list_all (\<lambda>nt. t_rows (snd nt) = [] \<and> \<not> has_table st (fst nt)) new)
   \<and> (has_table st ''providers'' \<and> has_table st ''receivers''
        \<and> has_table st ''food_listings'' \<and> has_table st ''claims''
       \<longrightarrow> fst (snd (create_tables (Db st))) = Db st
           \<and> fst (snd (create_tables_package (Db st))) = Db st)
   \<and> create_tables (fst (snd (create_tables conn))) = create_tables conn
   \<and> create_tables_package (fst (snd (create_tables_package conn))) = create_tables_package conn"
proof (intro conjI impI)
  show "fst (create_tables (Db st)) = Inr ()" "fst (create_tables_package (Db st)) = Inr ()"
    by (simp_all add: create_tables_def create_tables_package_def)
  show "\<exists>new. fst (snd (create_tables (Db st))) = Db (st @ new)
          \<and> fst (snd (create_tables_package (Db st))) = Db (st @ new)
          \<and> list_all (\<lambda>nt. t_rows (snd nt) = [] \<and> \<not> has_table st (fst nt)) new"
    using create_statements_extends[of st]
    by (simp add: create_tables_def create_tables_package_def)
  show "create_tables (fst (snd (create_tables conn))) = create_tables conn"
    by (cases conn) (simp_all add: create_tables_def create_statements_twice)
  show "create_tables_package (fst (snd (create_tables_package conn))) = create_tables_package conn"
    by (cases conn) (simp_all add: create_tables_package_def create_statements_twice)
next
  assume a: "has_table st ''providers'' \<and> has_table st ''receivers''
        \<and> has_table st ''food_listings'' \<and> has_table st ''claims''"
  then have "create_statements st = st" by (intro create_statements_existing) simp_all
  then show "fst (snd (create_tables (Db st))) = Db st"
    and "fst (snd (create_tables_package (Db st))) = Db st"
    by (simp_all add: create_tables_def create_tables_package_def)
qed

lemma st_loaded_has:
  "has_table st_loaded ''providers'' \<and> has_table st_loaded ''receivers''
        \<and> has_table st_loaded ''food_listings'' \<and> has_table st_loaded ''claims''"
  by (simp add: has_table_def st_loaded_def)

theorem create_tables_idempotent_witness:
  "has_table st_loaded ''providers'' \<and> has_table st_loaded ''receivers''
   \<and> has_table st_loaded ''food_listings'' \<and> has_table st_loaded ''claims''
   \<and> map (\<lambda>nt. length (t_rows (snd nt))) st_loaded = [1, 0, 1, 0]
   \<and> create_tables (Db st_loaded) = (Inr (), Db st_loaded, [''Tables created successfully!''])
   \<and> create_tables_package (Db st_loaded)
       = (Inr (), Db st_loaded, [''Tables created successfully!''])"
proof -
  have r: "map (\<lambda>nt. length (t_rows (snd nt))) st_loaded = [1, 0, 1, 0]"
    by (simp add: st_loaded_def schema_rows)
  from create_tables_idempotent[of st_loaded] st_loaded_has
  have s: "fst (snd (create_tables (Db st_loaded))) = Db st_loaded"
    "fst (snd (create_tables_package (Db st_loaded))) = Db st_loaded"
    by blast+
  have "create_tables (Db st_loaded) = (Inr (), Db st_loaded, [''Tables created successfully!''])"
    using s(1) by (simp add: create_tables_def)
  moreover have "create_tables_package (Db st_loaded)
      = (Inr (), Db st_loaded, [''Tables created successfully!''])"
    using s(2) by (simp add: create_tables_package_def)
  ultimately show ?thesis using st_loaded_has r by blast
qed

section \<open>Properties of \<open>execute_query\<close>\<close>







section \<open>Properties of the loader\<close>












section \<open>Properties of Report 9\<close>





























end
